theory Spec2Isabelle
  imports Complex_Main
begin

section \<open>The 2026 season poster: a model of \<^verbatim>\<open>2026-season.py\<close>\<close>

text \<open>
  The script draws one page with twelve month blocks. Each block holds a Sunday-first day
  grid, underlines under the days of race weekends and a list of the month's races with
  a flag. The model keeps the script's names. Python's unbounded integers are \<open>int\<close>,
  its dictionaries are association lists in insertion order (or maps where the order is
  never read), its exceptions are values of the type \<open>error\<close>.
\<close>

datatype error = ValueError | OverflowError | IllegalMonthError | IndexError | KeyError

subsection \<open>The standard library's calendar arithmetic\<close>

text \<open>
  The script calls \<^verbatim>\<open>datetime.date\<close>, \<^verbatim>\<open>timedelta\<close> and
  \<^verbatim>\<open>calendar.Calendar\<close>. These are CPython's, not the script's; they are written
  out here after CPython's pure-Python sources (\<^verbatim>\<open>Lib/_pydatetime.py\<close> and
  \<^verbatim>\<open>Lib/calendar.py\<close>), function by function, so that the script's calls compute.
  Python's \<^verbatim>\<open>//\<close> and \<^verbatim>\<open>%\<close> round towards minus infinity, as \<open>div\<close> and
  \<open>mod\<close> on \<open>int\<close> do.
\<close>

definition MAXORDINAL :: int where
  "MAXORDINAL = 3652059"

definition DAYS_IN_MONTH :: "int list" where
  "DAYS_IN_MONTH = [-1, 31, 28, 31, 30, 31, 30, 31, 31, 30, 31, 30, 31]"

definition DAYS_BEFORE_MONTH :: "int list" where
  "DAYS_BEFORE_MONTH = [-1, 0, 31, 59, 90, 120, 151, 181, 212, 243, 273, 304, 334]"

definition is_leap :: "int \<Rightarrow> bool" where
  "is_leap year = (year mod 4 = 0 \<and> (year mod 100 \<noteq> 0 \<or> year mod 400 = 0))"

definition days_before_year :: "int \<Rightarrow> int" where
  "days_before_year year = (let y = year - 1 in y * 365 + y div 4 - y div 100 + y div 400)"

text \<open>Both functions below are only called with \<open>1 \<le> month \<le> 12\<close> (CPython asserts it).\<close>

definition days_in_month :: "int \<Rightarrow> int \<Rightarrow> int" where
  "days_in_month year month =
     (if month = 2 \<and> is_leap year then 29 else DAYS_IN_MONTH ! nat month)"

definition days_before_month :: "int \<Rightarrow> int \<Rightarrow> int" where
  "days_before_month year month =
     DAYS_BEFORE_MONTH ! nat month + (if month > 2 \<and> is_leap year then 1 else 0)"

definition ymd2ord :: "int \<Rightarrow> int \<Rightarrow> int \<Rightarrow> int" where
  "ymd2ord year month day = days_before_year year + days_before_month year month + day"

definition DI400Y :: int where "DI400Y = days_before_year 401"
definition DI100Y :: int where "DI100Y = days_before_year 101"
definition DI4Y :: int where "DI4Y = days_before_year 5"

definition ord2ymd :: "int \<Rightarrow> int \<times> int \<times> int" where
  "ord2ymd n0 =
     (let n = n0 - 1;
          n400 = n div DI400Y; n = n mod DI400Y;
          year = n400 * 400 + 1;
          n100 = n div DI100Y; n = n mod DI100Y;
          n4 = n div DI4Y; n = n mod DI4Y;
          n1 = n div 365; n = n mod 365;
          year = year + n100 * 100 + n4 * 4 + n1
      in if n1 = 4 \<or> n100 = 4 then (year - 1, 12, 31)
         else
           let leapyear = (n1 = 3 \<and> (n4 \<noteq> 24 \<or> n100 = 3));
               month = (n + 50) div 32;
               preceding = DAYS_BEFORE_MONTH ! nat month
                             + (if month > 2 \<and> leapyear then 1 else 0)
           in if preceding > n
              then let month = month - 1;
                       preceding = preceding
                                     - (DAYS_IN_MONTH ! nat month
                                          + (if month = 2 \<and> leapyear then 1 else 0))
                   in (year, month, n - preceding + 1)
              else (year, month, n - preceding + 1))"

text \<open>
  \<^verbatim>\<open>date(year, month, day)\<close> checks its fields and raises \<^verbatim>\<open>ValueError\<close>; a date
  is the triple of its fields.
\<close>

type_synonym date = "int \<times> int \<times> int"

definition date :: "int \<Rightarrow> int \<Rightarrow> int \<Rightarrow> error + date" where
  "date year month day =
     (if \<not> (1 \<le> year \<and> year \<le> 9999) then Inl ValueError
      else if \<not> (1 \<le> month \<and> month \<le> 12) then Inl ValueError
      else if \<not> (1 \<le> day \<and> day \<le> days_in_month year month) then Inl ValueError
      else Inr (year, month, day))"

definition toordinal :: "date \<Rightarrow> int" where
  "toordinal dt = (case dt of (y, m, d) \<Rightarrow> ymd2ord y m d)"

text \<open>\<^verbatim>\<open>date.weekday()\<close>: Monday is 0 and Sunday is 6.\<close>

definition date_weekday :: "date \<Rightarrow> int" where
  "date_weekday dt = (toordinal dt + 6) mod 7"

text \<open>
  \<^verbatim>\<open>dt - timedelta(days=k)\<close> is \<^verbatim>\<open>dt + timedelta(-k)\<close>: the ordinal moves and is
  turned back into a date, or \<^verbatim>\<open>OverflowError\<close> is raised.
\<close>

definition date_sub_days :: "date \<Rightarrow> int \<Rightarrow> error + date" where
  "date_sub_days dt k =
     (let o' = toordinal dt + (- k)
      in if 0 < o' \<and> o' \<le> MAXORDINAL then Inr (ord2ymd o') else Inl OverflowError)"

definition date_month :: "date \<Rightarrow> int" where
  "date_month dt = (case dt of (y, m, d) \<Rightarrow> m)"

definition date_day :: "date \<Rightarrow> int" where
  "date_day dt = (case dt of (y, m, d) \<Rightarrow> d)"

text \<open>\<^verbatim>\<open>calendar.mdays\<close>, \<^verbatim>\<open>calendar.weekday\<close> and \<^verbatim>\<open>calendar.monthrange\<close>.\<close>

definition mdays :: "int list" where
  "mdays = [0, 31, 28, 31, 30, 31, 30, 31, 31, 30, 31, 30, 31]"

definition cal_weekday :: "int \<Rightarrow> int \<Rightarrow> int \<Rightarrow> error + int" where
  "cal_weekday year month day =
     (let year = (if \<not> (1 \<le> year \<and> year \<le> 9999) then 2000 + year mod 400 else year)
      in case date year month day of Inl e \<Rightarrow> Inl e | Inr dt \<Rightarrow> Inr (date_weekday dt))"

definition monthrange :: "int \<Rightarrow> int \<Rightarrow> error + (int \<times> int)" where
  "monthrange year month =
     (if \<not> (1 \<le> month \<and> month \<le> 12) then Inl IllegalMonthError
      else case cal_weekday year month 1 of
             Inl e \<Rightarrow> Inl e
           | Inr day1 \<Rightarrow>
               Inr (day1, mdays ! nat month + (if month = 2 \<and> is_leap year then 1 else 0)))"

text \<open>
  \<^verbatim>\<open>Calendar(firstweekday).itermonthdays\<close>: zeros before day 1 and after the last day
  fill whole weeks. \<^verbatim>\<open>monthdayscalendar\<close> cuts the days into rows of seven:
  \<^verbatim>\<open>[days[i:i+7] for i in range(0, len(days), 7)]\<close>.
\<close>

definition itermonthdays :: "int \<Rightarrow> int \<Rightarrow> int \<Rightarrow> error + int list" where
  "itermonthdays firstweekday year month =
     (case monthrange year month of
        Inl e \<Rightarrow> Inl e
      | Inr (day1, ndays) \<Rightarrow>
          let days_before = (day1 - firstweekday) mod 7;
              days_after = (firstweekday - day1 - ndays) mod 7
          in Inr (replicate (nat days_before) 0 @ [1..ndays] @ replicate (nat days_after) 0))"

definition monthdayscalendar :: "int \<Rightarrow> int \<Rightarrow> int \<Rightarrow> error + int list list" where
  "monthdayscalendar firstweekday year month =
     (case itermonthdays firstweekday year month of
        Inl e \<Rightarrow> Inl e
      | Inr days \<Rightarrow>
          Inr (map (\<lambda>k. take 7 (drop (7 * k) days)) [0 ..< (length days + 6) div 7]))"

subsection \<open>The script's tables\<close>

text \<open>
  \<^verbatim>\<open>race_sundays\<close>: a dictionary from (month, day) to the race's name, in the order of
  the literal (Python dictionaries keep insertion order, and the script iterates it).
\<close>

definition race_sundays :: "((int \<times> int) \<times> string) list" where
  "race_sundays =
     [((3, 8), ''AUSTRALIA''),
      ((3, 15), ''CHINA''),
      ((3, 29), ''JAPAN''),
      ((4, 12), ''BAHRAIN''),
      ((4, 19), ''SAUDI ARABIA''),
      ((5, 3), ''MIAMI''),
      ((5, 24), ''CANADA''),
      ((6, 7), ''MONACO''),
      ((6, 14), ''BARCELONA''),
      ((6, 28), ''AUSTRIA''),
      ((7, 5), ''GREAT BRITAIN''),
      ((7, 19), ''BELGIUM''),
      ((7, 26), ''HUNGARY''),
      ((8, 23), ''NETHERLANDS''),
      ((9, 6), ''ITALY''),
      ((9, 13), ''MADRID''),
      ((9, 26), ''AZERBAIJAN''),
      ((10, 11), ''SINGAPORE''),
      ((10, 25), ''AUSTIN''),
      ((11, 1), ''MEXICO''),
      ((11, 8), ''BRAZIL''),
      ((11, 21), ''LAS VEGAS''),
      ((11, 29), ''QATAR''),
      ((12, 6), ''ABU DHABI'')]"

text \<open>\<^verbatim>\<open>COUNTRY_FLAG_CODES\<close>: from a race's name to its two-letter country code.\<close>

definition COUNTRY_FLAG_CODES :: "(string \<times> string) list" where
  "COUNTRY_FLAG_CODES =
     [(''AUSTRALIA'', ''au''),
      (''CHINA'', ''cn''),
      (''JAPAN'', ''jp''),
      (''BAHRAIN'', ''bh''),
      (''SAUDI ARABIA'', ''sa''),
      (''MIAMI'', ''us''),
      (''CANADA'', ''ca''),
      (''MONACO'', ''mc''),
      (''BARCELONA'', ''es''),
      (''SPAIN (BARCELONA)'', ''es''),
      (''AUSTRIA'', ''at''),
      (''GREAT BRITAIN'', ''gb''),
      (''BELGIUM'', ''be''),
      (''HUNGARY'', ''hu''),
      (''NETHERLANDS'', ''nl''),
      (''ITALY'', ''it''),
      (''MADRID'', ''es''),
      (''AZERBAIJAN'', ''az''),
      (''SINGAPORE'', ''sg''),
      (''AUSTIN'', ''us''),
      (''MEXICO'', ''mx''),
      (''BRAZIL'', ''br''),
      (''LAS VEGAS'', ''us''),
      (''QATAR'', ''qa''),
      (''ABU DHABI'', ''ae'')]"

subsection \<open>The day matrix of a month\<close>

text \<open>
  \<^verbatim>\<open>month_weeks\<close> asks for the Sunday-first calendar of the month in 2026.
  \<^verbatim>\<open>draw_month\<close> then appends rows of seven zeros while there are fewer than six rows;
  \<open>pad_weeks\<close> is that loop.
\<close>

definition month_weeks :: "int \<Rightarrow> error + int list list" where
  "month_weeks month = monthdayscalendar 6 2026 month"

function pad_weeks :: "int list list \<Rightarrow> int list list" where
  "pad_weeks weeks = (if length weeks < 6 then pad_weeks (weeks @ [replicate 7 0]) else weeks)"
  by pat_completeness auto
termination
  by (relation "measure (\<lambda>weeks. 6 - length weeks)") auto

declare pad_weeks.simps [simp del]

definition padded_weeks :: "int \<Rightarrow> error + int list list" where
  "padded_weeks month =
     (case month_weeks month of Inl e \<Rightarrow> Inl e | Inr weeks \<Rightarrow> Inr (pad_weeks weeks))"

subsection \<open>Python's indexing, loops and string formatting\<close>

text \<open>
  \<^verbatim>\<open>xs[i]\<close>: a negative index counts from the end, an index out of range raises
  \<^verbatim>\<open>IndexError\<close>.
\<close>

definition getitem :: "'a list \<Rightarrow> int \<Rightarrow> error + 'a" where
  "getitem xs i =
     (let j = (if i < 0 then i + int (length xs) else i)
      in if j < 0 \<or> int (length xs) \<le> j then Inl IndexError else Inr (xs ! nat j))"

text \<open>
  A \<^verbatim>\<open>for\<close> loop whose body draws or raises: the drawing operations of the rounds are
  appended in order, and the first exception ends the loop.
\<close>

fun for_each :: "('a \<Rightarrow> error + 'b list) \<Rightarrow> 'a list \<Rightarrow> error + 'b list" where
  "for_each body [] = Inr []"
| "for_each body (a # as) =
     (case body a of
        Inl e \<Rightarrow> Inl e
      | Inr out \<Rightarrow> (case for_each body as of Inl e \<Rightarrow> Inl e | Inr rest \<Rightarrow> Inr (out @ rest)))"

text \<open>A \<^verbatim>\<open>for\<close> loop whose body updates local state or raises.\<close>

fun for_state :: "('a \<Rightarrow> 's \<Rightarrow> error + 's) \<Rightarrow> 'a list \<Rightarrow> 's \<Rightarrow> error + 's" where
  "for_state body [] s = Inr s"
| "for_state body (a # as) s =
     (case body a s of Inl e \<Rightarrow> Inl e | Inr s' \<Rightarrow> for_state body as s')"

text \<open>\<^verbatim>\<open>str(n)\<close> for an integer, and the format \<^verbatim>\<open>{d:02d}\<close>.\<close>

function str_nat :: "nat \<Rightarrow> string" where
  "str_nat n =
     (if n < 10 then [''0123456789'' ! n]
      else str_nat (n div 10) @ [''0123456789'' ! (n mod 10)])"
  by pat_completeness auto
termination
  by (relation "measure id") auto

declare str_nat.simps [simp del]

definition str_int :: "int \<Rightarrow> string" where
  "str_int i = (if i < 0 then CHR ''-'' # str_nat (nat (- i)) else str_nat (nat i))"

definition fmt_02d :: "int \<Rightarrow> string" where
  "fmt_02d d = (let s = str_int d in if length s < 2 then CHR ''0'' # s else s)"

text \<open>
  The text of a race line is \<^verbatim>\<open>f"{d:02d} - {name}"\<close>, where the dash of the source
  is an en dash (U+2013) between two spaces; it is written as its three UTF-8 bytes.
\<close>

definition en_dash :: string where
  "en_dash = [CHR 0xE2, CHR 0x80, CHR 0x93]"

definition race_text :: "int \<Rightarrow> string \<Rightarrow> string" where
  "race_text d name = fmt_02d d @ '' '' @ en_dash @ '' '' @ name"

text \<open>\<^verbatim>\<open>calendar.month_name\<close> (English names) and \<^verbatim>\<open>str.upper\<close> on ASCII letters.\<close>

definition month_name :: "string list" where
  "month_name =
     ['''', ''January'', ''February'', ''March'', ''April'', ''May'', ''June'', ''July'',
      ''August'', ''September'', ''October'', ''November'', ''December'']"

definition upper :: "string \<Rightarrow> string" where
  "upper s =
     map (\<lambda>c. case map_of (zip ''abcdefghijklmnopqrstuvwxyz'' ''ABCDEFGHIJKLMNOPQRSTUVWXYZ'') c of
                 None \<Rightarrow> c
               | Some u \<Rightarrow> u) s"

subsection \<open>The flag image provider\<close>

text \<open>
  An \<^verbatim>\<open>ImageReader\<close> object is a handle (its identity: every construction makes a new
  one) with the bytes it was made from. The state of the provider is the dictionary
  \<^verbatim>\<open>_flag_cache\<close> (a code maps to an image or to \<^verbatim>\<open>None\<close>), the files of the
  directory \<^verbatim>\<open>flags\<close> (by country code), the URLs requested so far and the next fresh
  handle. What the world answers is a parameter: whether \<^verbatim>\<open>ImageReader\<close> accepts a
  file or a byte string, what the k-th call of \<^verbatim>\<open>urlopen(...).read()\<close> returns
  (\<open>None\<close> when it raises, a timeout included), and whether \<^verbatim>\<open>mkdir\<close> and
  \<^verbatim>\<open>write_bytes\<close> succeed.
\<close>

datatype image = ImageReader (handle: nat) (pixels: string)

record flag_state =
  flag_cache :: "string \<rightharpoonup> image option"
  files :: "string \<rightharpoonup> string"
  requests :: "string list"
  next_handle :: nat

record env =
  reads_file :: "string \<Rightarrow> string \<Rightarrow> bool"
  reads_bytes :: "string \<Rightarrow> bool"
  urlopen_read :: "nat \<Rightarrow> string \<Rightarrow> string option"
  writes_file :: "string \<Rightarrow> string \<Rightarrow> bool"
  stringWidth :: "string \<Rightarrow> string \<Rightarrow> real \<Rightarrow> real"

definition flag_url :: "string \<Rightarrow> string" where
  "flag_url cc = ''https://flagcdn.com/w80/'' @ cc @ ''.png''"

text \<open>Lines 80 to 85: the local file, when it exists and \<^verbatim>\<open>ImageReader\<close> accepts it.\<close>

definition local_stage :: "env \<Rightarrow> string \<Rightarrow> flag_state \<Rightarrow> (image \<times> flag_state) option" where
  "local_stage env cc fs =
     (case files fs cc of
        None \<Rightarrow> None
      | Some content \<Rightarrow>
          if reads_file env cc content
          then let img = ImageReader (next_handle fs) content
               in Some (img, fs\<lparr>flag_cache := (flag_cache fs)(cc \<mapsto> Some img),
                                next_handle := next_handle fs + 1\<rparr>)
          else None)"

text \<open>
  Lines 87 to 96: the request, the write to the local directory and the decoding, all in
  one \<^verbatim>\<open>try\<close>; any exception stores \<^verbatim>\<open>None\<close> for the code.
\<close>

definition network_stage :: "env \<Rightarrow> string \<Rightarrow> flag_state \<Rightarrow> image option \<times> flag_state" where
  "network_stage env cc fs =
     (let fs1 = fs\<lparr>requests := requests fs @ [flag_url cc]\<rparr>
      in case urlopen_read env (length (requests fs)) (flag_url cc) of
           None \<Rightarrow> (None, fs1\<lparr>flag_cache := (flag_cache fs1)(cc \<mapsto> None)\<rparr>)
         | Some data \<Rightarrow>
             if \<not> writes_file env cc data
             then (None, fs1\<lparr>flag_cache := (flag_cache fs1)(cc \<mapsto> None)\<rparr>)
             else
               let fs2 = fs1\<lparr>files := (files fs1)(cc \<mapsto> data)\<rparr>
               in if \<not> reads_bytes env data
                  then (None, fs2\<lparr>flag_cache := (flag_cache fs2)(cc \<mapsto> None)\<rparr>)
                  else let img = ImageReader (next_handle fs2) data
                       in (Some img, fs2\<lparr>flag_cache := (flag_cache fs2)(cc \<mapsto> Some img),
                                          next_handle := next_handle fs2 + 1\<rparr>))"

definition get_flag_image :: "env \<Rightarrow> string \<Rightarrow> flag_state \<Rightarrow> image option \<times> flag_state" where
  "get_flag_image env cc fs =
     (case flag_cache fs cc of
        Some cached \<Rightarrow> (cached, fs)
      | None \<Rightarrow>
          (case local_stage env cc fs of
             Some (img, fs') \<Rightarrow> (Some img, fs')
           | None \<Rightarrow> network_stage env cc fs))"

text \<open>A run of calls, one after the other, with the results in order.\<close>

fun get_flag_images :: "env \<Rightarrow> string list \<Rightarrow> flag_state \<Rightarrow> image option list \<times> flag_state" where
  "get_flag_images env [] fs = ([], fs)"
| "get_flag_images env (cc # ccs) fs =
     (case get_flag_image env cc fs of
        (r, fs') \<Rightarrow> (case get_flag_images env ccs fs' of (rs, fs'') \<Rightarrow> (r # rs, fs'')))"

subsection \<open>The canvas\<close>

text \<open>
  The canvas is the sequence of the calls made on it, in order. Lengths are points;
  ReportLab's \<^verbatim>\<open>inch\<close> is 72. Coordinates are exact reals: the rounding of Python's
  floats is not modelled, and no statement below depends on it.
\<close>

type_synonym color = string

record theme =
  paper :: color
  ink :: color
  ink_light :: color
  accent :: color
  grid :: color
  font :: string
  font_bold :: string

datatype op =
    SetFillColor color
  | SetStrokeColor color
  | SetFont string real
  | SetLineWidth real
  | DrawString real real string
  | DrawCentredString real real string
  | Line real real real real
  | Rect real real real real
  | RoundRect real real real real real
  | DrawImage image real real real real
  | ShowPage
  | Save

definition inch :: real where "inch = 72"
definition WIDTH :: real where "WIDTH = 18 * inch"
definition HEIGHT :: real where "HEIGHT = 24 * inch"

subsection \<open>\<^verbatim>\<open>draw_month\<close>: the locals of the layout\<close>

text \<open>
  Each local variable of \<^verbatim>\<open>draw_month\<close> that holds a length is a definition over the
  block's rectangle: top-left corner \<open>(x, y)\<close>, width \<open>w\<close>, height \<open>h\<close>.
\<close>

definition pad :: real where "pad = 0.12 * inch"
definition header_h :: real where "header_h = 0.32 * inch"
definition list_h :: real where "list_h = 0.72 * inch"
definition grid_top :: "real \<Rightarrow> real" where "grid_top y = y - pad - header_h"
definition grid_left :: "real \<Rightarrow> real" where "grid_left x = x + pad"
definition grid_w :: "real \<Rightarrow> real" where "grid_w w = w - 2 * pad"
definition grid_h :: "real \<Rightarrow> real" where "grid_h h = h - (pad + header_h + list_h + pad)"
definition weekday_row_h :: real where "weekday_row_h = 0.11 * inch"
definition day_grid_h :: "real \<Rightarrow> real" where "day_grid_h h = grid_h h - weekday_row_h"
definition day_row_h :: "real \<Rightarrow> real" where "day_row_h h = day_grid_h h / 6.0"
definition col_w :: "real \<Rightarrow> real" where "col_w w = grid_w w / 7.0"
definition weekday_center_y :: "real \<Rightarrow> real" where
  "weekday_center_y y = grid_top y - weekday_row_h / 2"
definition grid_bottom :: "real \<Rightarrow> real \<Rightarrow> real" where
  "grid_bottom y h = grid_top y - weekday_row_h - 6 * day_row_h h"
definition gap_below_grid :: real where "gap_below_grid = 0.14 * inch"
definition flag_w :: real where "flag_w = 14"
definition flag_h :: real where "flag_h = 10"
definition text_indent :: "real \<Rightarrow> real" where "text_indent x = grid_left x + flag_w + 4"
definition line_h :: real where "line_h = 10"

definition weekdays :: "string list" where
  "weekdays = [''S'', ''M'', ''T'', ''W'', ''T'', ''F'', ''S'']"

subsection \<open>\<^verbatim>\<open>draw_month\<close>: header, grid lines, days and underlines\<close>

text \<open>Lines 143 to 148: the weekday initials.\<close>

definition draw_weekdays :: "theme \<Rightarrow> real \<Rightarrow> real \<Rightarrow> real \<Rightarrow> op list" where
  "draw_weekdays th x y w =
     [SetFont (font th) 8, SetFillColor (ink_light th)] @
     map (\<lambda>(col, wd).
            let cx = grid_left x + real col * col_w w + col_w w / 2
            in DrawCentredString cx (weekday_center_y y - 2.5) wd)
         (enumerate 0 weekdays)"

text \<open>Lines 151 to 163: two lines around the weekday band, six row lines, eight column lines.\<close>

definition draw_grid_lines :: "theme \<Rightarrow> real \<Rightarrow> real \<Rightarrow> real \<Rightarrow> real \<Rightarrow> op list" where
  "draw_grid_lines th x y w h =
     [SetStrokeColor (grid th), SetLineWidth 0.3,
      Line (grid_left x) (grid_top y) (grid_left x + grid_w w) (grid_top y),
      Line (grid_left x) (grid_top y - weekday_row_h)
           (grid_left x + grid_w w) (grid_top y - weekday_row_h)] @
     map (\<lambda>r. let yy = grid_top y - weekday_row_h - real r * day_row_h h
              in Line (grid_left x) yy (grid_left x + grid_w w) yy) [1 ..< 7] @
     map (\<lambda>col. let xx = grid_left x + real col * col_w w
                in Line xx (grid_top y) xx (grid_bottom y h)) [0 ..< 8]"

text \<open>
  Lines 172 to 181: the underline set. Only the table's entries of this month are read;
  each adds its own date and the two dates before it, as (month, day) pairs.
\<close>

definition underline_step ::
  "int \<Rightarrow> (int \<times> int) \<times> string \<Rightarrow> (int \<times> int) set \<Rightarrow> error + (int \<times> int) set" where
  "underline_step month item underline_days =
     (case item of ((m, d), _) \<Rightarrow>
        if m \<noteq> month then Inr underline_days
        else
          (case date 2026 m d of
             Inl e \<Rightarrow> Inl e
           | Inr sun \<Rightarrow>
               (case date_sub_days sun 2 of
                  Inl e \<Rightarrow> Inl e
                | Inr fri \<Rightarrow>
                    (case date_sub_days sun 1 of
                       Inl e \<Rightarrow> Inl e
                     | Inr sat \<Rightarrow>
                         Inr (underline_days \<union>
                              set [(date_month fri, date_day fri),
                                   (date_month sat, date_day sat),
                                   (date_month sun, date_day sun)])))))"

definition underline_days :: "((int \<times> int) \<times> string) list \<Rightarrow> int \<Rightarrow> error + (int \<times> int) set" where
  "underline_days tbl month = for_state (underline_step month) tbl {}"

text \<open>
  Lines 188 to 211: one cell. A zero is skipped; a day is drawn, and underlined when
  (month, day) is in the underline set.
\<close>

definition draw_day ::
  "env \<Rightarrow> theme \<Rightarrow> real \<Rightarrow> real \<Rightarrow> real \<Rightarrow> real \<Rightarrow> int \<Rightarrow> (int \<times> int) set
     \<Rightarrow> nat \<Rightarrow> nat \<Rightarrow> int \<Rightarrow> op list" where
  "draw_day env th x y w h month underline r col day =
     (if day = 0 then []
      else
        let cell_x = grid_left x + real col * col_w w;
            cell_top = grid_top y - weekday_row_h - real r * day_row_h h;
            cx = cell_x + col_w w / 2;
            ty = cell_top - day_row_h h + 3;
            day_str = str_int day
        in DrawCentredString cx ty day_str #
           (if (month, day) \<in> underline
            then let digit_width = stringWidth env day_str (font th) 8;
                     uy = ty - 3
                 in [SetStrokeColor (accent th), SetLineWidth 0.8,
                     Line (cx - digit_width / 2) uy (cx + digit_width / 2) uy,
                     SetStrokeColor (grid th), SetLineWidth 0.3]
            else []))"

definition draw_days ::
  "env \<Rightarrow> theme \<Rightarrow> real \<Rightarrow> real \<Rightarrow> real \<Rightarrow> real \<Rightarrow> int \<Rightarrow> int list list
     \<Rightarrow> (int \<times> int) set \<Rightarrow> error + op list" where
  "draw_days env th x y w h month weeks underline =
     for_each
       (\<lambda>r. case getitem weeks (int r) of
              Inl e \<Rightarrow> Inl e
            | Inr week \<Rightarrow>
                for_each
                  (\<lambda>col. case getitem week (int col) of
                           Inl e \<Rightarrow> Inl e
                         | Inr day \<Rightarrow> Inr (draw_day env th x y w h month underline r col day))
                  [0 ..< 7])
       [0 ..< 6]"

text \<open>
  The days for which the two loops reach the underline of line 209, as numbers: the same
  loops over the same matrix with the same two tests (lines 192 and 204), keeping the day
  instead of drawing. It is only a means of computing; what the canvas shows is proved to
  agree with it below.
\<close>

definition underlined_in_grid :: "((int \<times> int) \<times> string) list \<Rightarrow> int \<Rightarrow> error + int list" where
  "underlined_in_grid tbl month =
     (case padded_weeks month of
        Inl e \<Rightarrow> Inl e
      | Inr weeks \<Rightarrow>
          (case underline_days tbl month of
             Inl e \<Rightarrow> Inl e
           | Inr underline \<Rightarrow>
               for_each
                 (\<lambda>r. case getitem weeks (int r) of
                        Inl e \<Rightarrow> Inl e
                      | Inr week \<Rightarrow>
                          for_each
                            (\<lambda>col. case getitem week (int col) of
                                     Inl e \<Rightarrow> Inl e
                                   | Inr day \<Rightarrow>
                                       Inr (if day \<noteq> 0 \<and> (month, day) \<in> underline
                                            then [day] else []))
                            [0 ..< (7::nat)])
                 [0 ..< (6::nat)]))"

text \<open>Lines 116 to 211: everything of the block above the race list.\<close>

definition draw_month_grid ::
  "((int \<times> int) \<times> string) list \<Rightarrow> env \<Rightarrow> theme \<Rightarrow> real \<Rightarrow> real \<Rightarrow> real \<Rightarrow> real \<Rightarrow> int
     \<Rightarrow> error + op list" where
  "draw_month_grid tbl env th x y w h month =
     (case getitem month_name month of
        Inl e \<Rightarrow> Inl e
      | Inr name \<Rightarrow>
          (case padded_weeks month of
             Inl e \<Rightarrow> Inl e
           | Inr weeks \<Rightarrow>
               (case underline_days tbl month of
                  Inl e \<Rightarrow> Inl e
                | Inr underline \<Rightarrow>
                    (case draw_days env th x y w h month weeks underline of
                       Inl e \<Rightarrow> Inl e
                     | Inr day_ops \<Rightarrow>
                         Inr ([SetFillColor (ink th), SetFont (font th) 14,
                               DrawString (x + pad) (y - pad - 10) (upper name)] @
                              draw_weekdays th x y w @
                              draw_grid_lines th x y w h @
                              [SetFont (font th) 8, SetFillColor (ink th)] @
                              day_ops)))))"

subsection \<open>\<^verbatim>\<open>draw_month\<close>: the race list\<close>

text \<open>
  Lines 220 and 221: the month's races. The comprehension walks the table's keys and
  looks each one up again (\<^verbatim>\<open>KeyError\<close> when absent); the sort is stable and by day.
\<close>

fun races_of ::
  "((int \<times> int) \<times> string) list \<Rightarrow> int \<Rightarrow> (int \<times> int) list \<Rightarrow> error + (int \<times> string) list" where
  "races_of tbl month [] = Inr []"
| "races_of tbl month ((m, d) # keys) =
     (if m = month
      then (case map_of tbl (month, d) of
              None \<Rightarrow> Inl KeyError
            | Some name \<Rightarrow>
                (case races_of tbl month keys of
                   Inl e \<Rightarrow> Inl e
                 | Inr rs \<Rightarrow> Inr ((d, name) # rs)))
      else races_of tbl month keys)"

definition month_races :: "((int \<times> int) \<times> string) list \<Rightarrow> int \<Rightarrow> error + (int \<times> string) list" where
  "month_races tbl month =
     (case races_of tbl month (map fst tbl) of
        Inl e \<Rightarrow> Inl e
      | Inr rs \<Rightarrow> Inr (sort_key fst rs))"

text \<open>
  Lines 223 to 232: one line per race. \<open>draw_flag\<close> is lines 224 to 230: a name
  without a code, or with an empty one, asks for no flag, and a flag that is
  \<^verbatim>\<open>None\<close> is not drawn. The text is drawn in every case, and the next line is
  \<^verbatim>\<open>line_h\<close> lower.
\<close>

definition draw_flag ::
  "(string \<times> string) list \<Rightarrow> env \<Rightarrow> real \<Rightarrow> real \<Rightarrow> string \<Rightarrow> flag_state
     \<Rightarrow> op list \<times> flag_state" where
  "draw_flag codes env x list_y_top name fs =
     (case map_of codes name of
        None \<Rightarrow> ([], fs)
      | Some cc \<Rightarrow>
          if cc = [] then ([], fs)
          else (case get_flag_image env cc fs of
                  (None, fs') \<Rightarrow> ([], fs')
                | (Some img, fs') \<Rightarrow>
                    (let flag_y = list_y_top - 2
                     in ([DrawImage img (grid_left x) flag_y flag_w flag_h], fs'))))"

fun draw_race_lines ::
  "(string \<times> string) list \<Rightarrow> env \<Rightarrow> real \<Rightarrow> (int \<times> string) list \<Rightarrow> real \<Rightarrow> flag_state
     \<Rightarrow> op list \<times> flag_state" where
  "draw_race_lines codes env x [] list_y_top fs = ([], fs)"
| "draw_race_lines codes env x ((d, name) # races) list_y_top fs =
     (case draw_flag codes env x list_y_top name fs of
        (flag_ops, fs1) \<Rightarrow>
          (case draw_race_lines codes env x races (list_y_top - line_h) fs1 of
             (rest, fs2) \<Rightarrow>
               (flag_ops @ [DrawString (text_indent x) list_y_top (race_text d name)] @ rest,
                fs2)))"

definition draw_month ::
  "((int \<times> int) \<times> string) list \<Rightarrow> (string \<times> string) list \<Rightarrow> env \<Rightarrow> theme
     \<Rightarrow> real \<Rightarrow> real \<Rightarrow> real \<Rightarrow> real \<Rightarrow> int \<Rightarrow> flag_state \<Rightarrow> error + (op list \<times> flag_state)" where
  "draw_month tbl codes env th x y w h month fs =
     (case draw_month_grid tbl env th x y w h month of
        Inl e \<Rightarrow> Inl e
      | Inr grid_ops \<Rightarrow>
          (case month_races tbl month of
             Inl e \<Rightarrow> Inl e
           | Inr races \<Rightarrow>
               (case draw_race_lines codes env x races (grid_bottom y h - gap_below_grid) fs of
                  (line_ops, fs') \<Rightarrow>
                    Inr (grid_ops @ [SetFillColor (ink th), SetFont (font th) 8] @ line_ops,
                         fs'))))"

subsection \<open>\<^verbatim>\<open>make_poster\<close>\<close>

definition margin :: real where "margin = 0.75 * inch"
definition header_y :: real where "header_y = HEIGHT - margin"
definition page_grid_top :: real where "page_grid_top = header_y - 80"
definition page_grid_bottom :: real where "page_grid_bottom = margin"
definition page_grid_h :: real where "page_grid_h = page_grid_top - page_grid_bottom"
definition cols :: nat where "cols = 3"
definition rows :: nat where "rows = 4"
definition gap_x :: real where "gap_x = 0.35 * inch"
definition gap_y :: real where "gap_y = 0.40 * inch"
definition cell_w :: real where
  "cell_w = (WIDTH - 2 * margin - (real cols - 1) * gap_x) / real cols"
definition cell_h :: real where
  "cell_h = (page_grid_h - (real rows - 1) * gap_y) / real rows"
definition block_x :: "nat \<Rightarrow> real" where "block_x col = margin + real col * (cell_w + gap_x)"
definition block_y :: "nat \<Rightarrow> real" where "block_y r = page_grid_top - real r * (cell_h + gap_y)"

text \<open>
  Lines 263 to 271, the body of the two loops. Its state is the local \<^verbatim>\<open>month\<close>, the
  canvas and the flag provider's state.
\<close>

definition month_block ::
  "((int \<times> int) \<times> string) list \<Rightarrow> (string \<times> string) list \<Rightarrow> env \<Rightarrow> theme
     \<Rightarrow> nat \<Rightarrow> nat \<Rightarrow> int \<Rightarrow> flag_state \<Rightarrow> error + (op list \<times> flag_state)" where
  "month_block tbl codes env th r col month fs =
     (case draw_month tbl codes env th (block_x col) (block_y r) cell_w cell_h month fs of
        Inl e \<Rightarrow> Inl e
      | Inr (ops, fs') \<Rightarrow>
          Inr ([SetStrokeColor (grid th), SetLineWidth 0.6,
                RoundRect (block_x col) (block_y r - cell_h) cell_w cell_h 10] @ ops, fs'))"

definition poster_body ::
  "((int \<times> int) \<times> string) list \<Rightarrow> (string \<times> string) list \<Rightarrow> env \<Rightarrow> theme
     \<Rightarrow> nat \<Rightarrow> nat \<Rightarrow> int \<times> op list \<times> flag_state \<Rightarrow> error + (int \<times> op list \<times> flag_state)" where
  "poster_body tbl codes env th r col s =
     (case s of (month, canvas, fs) \<Rightarrow>
        (case month_block tbl codes env th r col month fs of
           Inl e \<Rightarrow> Inl e
         | Inr (ops, fs') \<Rightarrow> Inr (month + 1, canvas @ ops, fs')))"

definition poster_head :: "theme \<Rightarrow> op list" where
  "poster_head th =
     [SetFillColor (paper th), Rect 0 0 WIDTH HEIGHT,
      SetFillColor (ink th), SetFont (font_bold th) 42,
      DrawString margin (header_y - 48) ''2026 FORMULA 1 SEASON'']"

definition make_poster ::
  "((int \<times> int) \<times> string) list \<Rightarrow> (string \<times> string) list \<Rightarrow> env \<Rightarrow> theme \<Rightarrow> flag_state
     \<Rightarrow> error + (op list \<times> flag_state)" where
  "make_poster tbl codes env th fs =
     (case for_state (\<lambda>r. for_state (poster_body tbl codes env th r) [0 ..< cols])
             [0 ..< rows] (1, poster_head th, fs) of
        Inl e \<Rightarrow> Inl e
      | Inr (month, canvas, fs') \<Rightarrow> Inr (canvas @ [ShowPage, Save], fs'))"

text \<open>
  The script's run: the theme of the source, the two tables of the source and an empty
  \<^verbatim>\<open>_flag_cache\<close>; the files found in \<^verbatim>\<open>flags\<close> at the start are the world's.
\<close>

definition theme_2026 :: theme where
  "theme_2026 =
     \<lparr>paper = ''#E4E2DC'', ink = ''#1A1A1A'', ink_light = ''#5C5A54'', accent = ''#C1121F'',
      grid = ''#CAC6BE'', font = ''Helvetica'', font_bold = ''Helvetica-Bold''\<rparr>"

definition start_state :: "(string \<rightharpoonup> string) \<Rightarrow> flag_state" where
  "start_state disk = \<lparr>flag_cache = Map.empty, files = disk, requests = [], next_handle = 0\<rparr>"

definition run_script :: "env \<Rightarrow> (string \<rightharpoonup> string) \<Rightarrow> error + (op list \<times> flag_state)" where
  "run_script env disk =
     make_poster race_sundays COUNTRY_FLAG_CODES env theme_2026 (start_state disk)"
subsection \<open>What is read off a canvas\<close>

text \<open>
  The texts drawn with \<^verbatim>\<open>drawString\<close>, with their positions, in drawing order. The
  script draws three kinds of them: the title, the month names and the race lines; the
  weekday initials and the day numbers are drawn with \<^verbatim>\<open>drawCentredString\<close>.
\<close>

fun drawn_strings :: "op list \<Rightarrow> (real \<times> real \<times> string) list" where
  "drawn_strings [] = []"
| "drawn_strings (DrawString x y s # ops) = (x, y, s) # drawn_strings ops"
| "drawn_strings (_ # ops) = drawn_strings ops"

definition drawn_texts :: "op list \<Rightarrow> string list" where
  "drawn_texts ops = map (\<lambda>(x, y, s). s) (drawn_strings ops)"

text \<open>
  The operations that frame the page: the outline of a month block (the only
  \<^verbatim>\<open>roundRect\<close> calls), \<^verbatim>\<open>showPage\<close> and \<^verbatim>\<open>save\<close>.
\<close>

fun frame_op :: "op \<Rightarrow> bool" where
  "frame_op (RoundRect x y w h radius) = True"
| "frame_op ShowPage = True"
| "frame_op Save = True"
| "frame_op _ = False"

text \<open>
  The race lines among the drawn texts: the texts that are the line of an entry of the
  table.
\<close>

definition race_texts :: "((int \<times> int) \<times> string) list \<Rightarrow> string list" where
  "race_texts tbl = map (\<lambda>((m, d), name). race_text d name) tbl"

definition race_lines_drawn :: "((int \<times> int) \<times> string) list \<Rightarrow> op list \<Rightarrow> string list" where
  "race_lines_drawn tbl ops = filter (\<lambda>s. s \<in> set (race_texts tbl)) (drawn_texts ops)"

text \<open>
  The underlined day numbers on a canvas. An underline is a \<^verbatim>\<open>line\<close> drawn at line
  width 0.8 (the grid is drawn at 0.3, the block outline at 0.6) that lies 3 points under
  the baseline of the text centred last before it and is centred on it; the list holds the
  underlined texts in drawing order. The first argument is the line width at the start,
  the second the text centred last.
\<close>

fun is_line :: "op \<Rightarrow> bool" where
  "is_line (Line x1 y1 x2 y2) = True"
| "is_line _ = False"

fun underlined :: "real \<Rightarrow> (real \<times> real \<times> string) option \<Rightarrow> op list \<Rightarrow> string list" where
  "underlined lw label [] = []"
| "underlined lw label (SetLineWidth v # ops) = underlined v label ops"
| "underlined lw label (DrawCentredString cx ty s # ops) = underlined lw (Some (cx, ty, s)) ops"
| "underlined lw label (Line x1 y1 x2 y2 # ops) =
     (case label of
        None \<Rightarrow> []
      | Some (cx, ty, s) \<Rightarrow>
          if lw = 0.8 \<and> y1 = ty - 3 \<and> y2 = ty - 3 \<and> x1 + x2 = 2 * cx then [s] else []) @
     underlined lw label ops"
| "underlined lw label (_ # ops) = underlined lw label ops"

text \<open>
  What a month block is expected to write: the month's name, then one line per race of
  the month, at the text indent, each \<^verbatim>\<open>line_h\<close> below the one before.
\<close>

definition block_texts :: "((int \<times> int) \<times> string) list \<Rightarrow> int \<Rightarrow> string list" where
  "block_texts tbl month =
     upper (month_name ! nat month) #
     (case month_races tbl month of
        Inl e \<Rightarrow> []
      | Inr races \<Rightarrow> map (\<lambda>(d, name). race_text d name) races)"

definition race_line_strings :: "((int \<times> int) \<times> string) list \<Rightarrow> int \<Rightarrow> real \<Rightarrow> real \<Rightarrow> real
    \<Rightarrow> (real \<times> real \<times> string) list" where
  "race_line_strings tbl month x y h =
     (case month_races tbl month of
        Inl e \<Rightarrow> []
      | Inr races \<Rightarrow>
          map (\<lambda>(i, d, name). (grid_left x + flag_w + 4,
                 grid_bottom y h - gap_below_grid - real i * line_h, race_text d name))
              (enumerate 0 races))"

subsection \<open>Row-major order, as the specification words it\<close>

text \<open>
  The specification assigns the months to the 3 by 4 grid row by row: the block in row
  \<open>r\<close> and column \<open>c\<close> (both from 0) shows month \<open>3 r + c + 1\<close>. \<open>row_major\<close> lists
  the twelve (row, column, month) triples in that order, and \<open>draw_blocks\<close> draws the
  blocks of such a list one after the other, handing the flag provider's state on.
\<close>

definition row_major :: "(nat \<times> nat \<times> int) list" where
  "row_major = concat (map (\<lambda>r. map (\<lambda>c. (r, c, 3 * int r + int c + 1)) [0 ..< 3]) [0 ..< 4])"

fun draw_blocks ::
  "((int \<times> int) \<times> string) list \<Rightarrow> (string \<times> string) list \<Rightarrow> env \<Rightarrow> theme
     \<Rightarrow> (nat \<times> nat \<times> int) list \<Rightarrow> flag_state \<Rightarrow> error + (op list \<times> flag_state)" where
  "draw_blocks tbl codes env th [] fs = Inr ([], fs)"
| "draw_blocks tbl codes env th ((r, col, month) # blocks) fs =
     (case month_block tbl codes env th r col month fs of
        Inl e \<Rightarrow> Inl e
      | Inr (ops, fs1) \<Rightarrow>
          (case draw_blocks tbl codes env th blocks fs1 of
             Inl e \<Rightarrow> Inl e
           | Inr (rest, fs2) \<Rightarrow> Inr (ops @ rest, fs2)))"

subsection \<open>Sample worlds and a sample table\<close>

text \<open>
  A world without network and without usable files, a world whose every request returns
  the bytes \<open>PNG\<close>, a table with a race whose name has no country code, and a table
  whose entries of one month are not in the order of their days (8, 29, 15).
\<close>

definition env_offline :: env where
  "env_offline =
     \<lparr>reads_file = (\<lambda>cc content. False), reads_bytes = (\<lambda>data. True),
      urlopen_read = (\<lambda>k url. None), writes_file = (\<lambda>cc data. True),
      stringWidth = (\<lambda>s f size. 0)\<rparr>"

definition env_online :: env where
  "env_online =
     \<lparr>reads_file = (\<lambda>cc content. False), reads_bytes = (\<lambda>data. True),
      urlopen_read = (\<lambda>k url. Some ''PNG''), writes_file = (\<lambda>cc data. True),
      stringWidth = (\<lambda>s f size. 0)\<rparr>"

definition example_table :: "((int \<times> int) \<times> string) list" where
  "example_table = [((3, 8), ''AUSTRALIA''), ((3, 15), ''ATLANTIS'')]"

definition unsorted_table :: "((int \<times> int) \<times> string) list" where
  "unsorted_table = [((5, 8), ''MIAMI''), ((5, 29), ''MONACO''), ((5, 15), ''CANADA'')]"

subsection \<open>The check of a race weekend, as a computation\<close>

text \<open>
  For a table entry (m, d), the labels underlined in month m's block and \<open>k\<close> days
  earlier: the earlier date exists in 2026; the label of \<open>d - k\<close> is underlined exactly
  when the earlier date is in month m; a date in the month before is underlined neither
  among these labels nor among the labels of the month before.
\<close>

definition earlier_label_check :: "int \<Rightarrow> int \<Rightarrow> string list \<Rightarrow> int \<Rightarrow> bool" where
  "earlier_label_check m d labels k =
     (case date_sub_days (2026, m, d) k of
        Inl e \<Rightarrow> False
      | Inr (py, pm, pd) \<Rightarrow>
          py = 2026 \<and> ((str_int (d - k) \<in> set labels) = (pm = m)) \<and>
          (if pm = m then pd = d - k
           else pm = m - 1 \<and> 1 \<le> pm \<and> str_int pd \<notin> set labels \<and>
                (case underlined_in_grid race_sundays pm of
                   Inl e \<Rightarrow> False
                 | Inr prior \<Rightarrow> str_int pd \<notin> set (map str_int prior))))"

definition weekend_label_check :: "int \<Rightarrow> int \<Rightarrow> bool" where
  "weekend_label_check m d =
     (case underlined_in_grid race_sundays m of
        Inl e \<Rightarrow> False
      | Inr days \<Rightarrow>
          1 \<le> m \<and> m \<le> 12 \<and>
          date 2026 m d = Inr (2026, m, d) \<and> str_int d \<in> set (map str_int days) \<and>
          earlier_label_check m d (map str_int days) 1 \<and>
          earlier_label_check m d (map str_int days) 2)"

section \<open>Properties\<close>

subsection \<open>The twelve day matrices of 2026\<close>

lemma month_cases:
  "1 \<le> (month::int) \<Longrightarrow> month \<le> 12 \<Longrightarrow> month \<in> {1, 2, 3, 4, 5, 6, 7, 8, 9, 10, 11, 12}"
  by (simp, arith)

lemma padded_weeks_2026:
  "padded_weeks 1 =
     Inr [[0, 0, 0, 0, 1, 2, 3],
        [4, 5, 6, 7, 8, 9, 10],
        [11, 12, 13, 14, 15, 16, 17],
        [18, 19, 20, 21, 22, 23, 24],
        [25, 26, 27, 28, 29, 30, 31],
        [0, 0, 0, 0, 0, 0, 0]]"
  "padded_weeks 2 =
     Inr [[1, 2, 3, 4, 5, 6, 7],
        [8, 9, 10, 11, 12, 13, 14],
        [15, 16, 17, 18, 19, 20, 21],
        [22, 23, 24, 25, 26, 27, 28],
        [0, 0, 0, 0, 0, 0, 0],
        [0, 0, 0, 0, 0, 0, 0]]"
  "padded_weeks 3 =
     Inr [[1, 2, 3, 4, 5, 6, 7],
        [8, 9, 10, 11, 12, 13, 14],
        [15, 16, 17, 18, 19, 20, 21],
        [22, 23, 24, 25, 26, 27, 28],
        [29, 30, 31, 0, 0, 0, 0],
        [0, 0, 0, 0, 0, 0, 0]]"
  "padded_weeks 4 =
     Inr [[0, 0, 0, 1, 2, 3, 4],
        [5, 6, 7, 8, 9, 10, 11],
        [12, 13, 14, 15, 16, 17, 18],
        [19, 20, 21, 22, 23, 24, 25],
        [26, 27, 28, 29, 30, 0, 0],
        [0, 0, 0, 0, 0, 0, 0]]"
  "padded_weeks 5 =
     Inr [[0, 0, 0, 0, 0, 1, 2],
        [3, 4, 5, 6, 7, 8, 9],
        [10, 11, 12, 13, 14, 15, 16],
        [17, 18, 19, 20, 21, 22, 23],
        [24, 25, 26, 27, 28, 29, 30],
        [31, 0, 0, 0, 0, 0, 0]]"
  "padded_weeks 6 =
     Inr [[0, 1, 2, 3, 4, 5, 6],
        [7, 8, 9, 10, 11, 12, 13],
        [14, 15, 16, 17, 18, 19, 20],
        [21, 22, 23, 24, 25, 26, 27],
        [28, 29, 30, 0, 0, 0, 0],
        [0, 0, 0, 0, 0, 0, 0]]"
  "padded_weeks 7 =
     Inr [[0, 0, 0, 1, 2, 3, 4],
        [5, 6, 7, 8, 9, 10, 11],
        [12, 13, 14, 15, 16, 17, 18],
        [19, 20, 21, 22, 23, 24, 25],
        [26, 27, 28, 29, 30, 31, 0],
        [0, 0, 0, 0, 0, 0, 0]]"
  "padded_weeks 8 =
     Inr [[0, 0, 0, 0, 0, 0, 1],
        [2, 3, 4, 5, 6, 7, 8],
        [9, 10, 11, 12, 13, 14, 15],
        [16, 17, 18, 19, 20, 21, 22],
        [23, 24, 25, 26, 27, 28, 29],
        [30, 31, 0, 0, 0, 0, 0]]"
  "padded_weeks 9 =
     Inr [[0, 0, 1, 2, 3, 4, 5],
        [6, 7, 8, 9, 10, 11, 12],
        [13, 14, 15, 16, 17, 18, 19],
        [20, 21, 22, 23, 24, 25, 26],
        [27, 28, 29, 30, 0, 0, 0],
        [0, 0, 0, 0, 0, 0, 0]]"
  "padded_weeks 10 =
     Inr [[0, 0, 0, 0, 1, 2, 3],
        [4, 5, 6, 7, 8, 9, 10],
        [11, 12, 13, 14, 15, 16, 17],
        [18, 19, 20, 21, 22, 23, 24],
        [25, 26, 27, 28, 29, 30, 31],
        [0, 0, 0, 0, 0, 0, 0]]"
  "padded_weeks 11 =
     Inr [[1, 2, 3, 4, 5, 6, 7],
        [8, 9, 10, 11, 12, 13, 14],
        [15, 16, 17, 18, 19, 20, 21],
        [22, 23, 24, 25, 26, 27, 28],
        [29, 30, 0, 0, 0, 0, 0],
        [0, 0, 0, 0, 0, 0, 0]]"
  "padded_weeks 12 =
     Inr [[0, 0, 1, 2, 3, 4, 5],
        [6, 7, 8, 9, 10, 11, 12],
        [13, 14, 15, 16, 17, 18, 19],
        [20, 21, 22, 23, 24, 25, 26],
        [27, 28, 29, 30, 31, 0, 0],
        [0, 0, 0, 0, 0, 0, 0]]"
  by code_simp+

lemma padded_weeks_outside: "\<not> (1 \<le> month \<and> month \<le> 12) \<Longrightarrow> padded_weeks month = Inl IllegalMonthError"
  by (simp add: padded_weeks_def month_weeks_def monthdayscalendar_def itermonthdays_def
      monthrange_def)

lemma days_in_month_2026:
  "map (days_in_month 2026) [1, 2, 3, 4, 5, 6, 7, 8, 9, 10, 11, 12] =
     [31, 28, 31, 30, 31, 30, 31, 31, 30, 31, 30, 31]"
  by code_simp

text \<open>
  C3. For every month from 1 to 12, the matrix that \<^verbatim>\<open>draw_month\<close> renders
  (\<^verbatim>\<open>month_weeks\<close> padded by the loop of lines 168 and 169) has 6 rows of 7 cells each,
  and its non-zero cells are as many as the month has days in 2026; they are the days
  1 to the last one, in order.
\<close>

theorem day_matrix_six_by_seven:
  assumes "1 \<le> month" and "month \<le> 12"
  shows "\<exists>weeks. padded_weeks month = Inr weeks \<and> length weeks = 6 \<and>
           list_all (\<lambda>week. length week = 7) weeks \<and>
           int (length (filter (\<lambda>day. day \<noteq> 0) (concat weeks))) = days_in_month 2026 month \<and>
           filter (\<lambda>day. day \<noteq> 0) (concat weeks) = [1 .. days_in_month 2026 month]"
proof -
  from assms have "month \<in> {1, 2, 3, 4, 5, 6, 7, 8, 9, 10, 11, 12}"
    by (rule month_cases)
  then show ?thesis
    using days_in_month_2026
    apply (elim insertE emptyE)
               apply (simp_all only: padded_weeks_2026)
               apply (simp_all add: upto.simps)
    done
qed

theorem day_matrix_six_by_seven_witness:
  "(1::int) \<le> 2 \<and> (2::int) \<le> 12 \<and>
   (\<exists>weeks. padded_weeks 2 = Inr weeks \<and> length weeks = 6 \<and>
      list_all (\<lambda>week. length week = 7) weeks \<and>
      int (length (filter (\<lambda>day. day \<noteq> 0) (concat weeks))) = 28 \<and>
      filter (\<lambda>day. day \<noteq> 0) (concat weeks) = [1 .. 28])"
proof -
  have d: "days_in_month 2026 2 = 28"
    by (simp add: days_in_month_def is_leap_def DAYS_IN_MONTH_def)
  show ?thesis
    using day_matrix_six_by_seven [of 2] by (simp add: d)
qed

lemma padded_weeks_shape:
  assumes "1 \<le> month" and "month \<le> 12"
  shows "\<exists>weeks. padded_weeks month = Inr weeks \<and> 6 \<le> length weeks \<and> (\<forall>r < 6. 7 \<le> length (weeks ! r))"
proof -
  from assms have "month \<in> {1, 2, 3, 4, 5, 6, 7, 8, 9, 10, 11, 12}"
    by (rule month_cases)
  then show ?thesis
    apply (elim insertE emptyE)
               apply (simp_all only: padded_weeks_2026)
               apply (simp_all add: less_Suc_eq numeral_eq_Suc nth_Cons')
    done
qed

subsection \<open>The race table\<close>

lemma race_sundays_distinct: "distinct (map fst race_sundays)"
  by (simp add: race_sundays_def)

lemma COUNTRY_FLAG_CODES_distinct: "distinct (map fst COUNTRY_FLAG_CODES)"
  by (simp add: COUNTRY_FLAG_CODES_def)

text \<open>
  C1. The claim is that every date of \<^verbatim>\<open>race_sundays\<close> is a Sunday of 2026
  (\<^verbatim>\<open>calendar.weekday\<close> gives 6). The table has two entries that are Saturdays (5):
  26 September and 21 November. All the others are Sundays.
\<close>

theorem race_sundays_two_saturdays:
  "filter (\<lambda>((m, d), name). cal_weekday 2026 m d \<noteq> Inr 6) race_sundays =
     [((9, 26), ''AZERBAIJAN''), ((11, 21), ''LAS VEGAS'')] \<and>
   cal_weekday 2026 9 26 = Inr 5 \<and> cal_weekday 2026 11 21 = Inr 5"
  by code_simp



subsection \<open>The races of a month, in order\<close>

lemma races_of_Inr:
  assumes "set keys \<subseteq> fst ` set tbl"
  shows "races_of tbl month keys =
     Inr (map (\<lambda>(m, d). (d, the (map_of tbl (month, d)))) (filter (\<lambda>(m, d). m = month) keys))"
  using assms
proof (induction keys)
  case Nil
  then show ?case by simp
next
  case (Cons key keys)
  obtain m d where key: "key = (m, d)" by (cases key)
  have IH: "races_of tbl month keys =
     Inr (map (\<lambda>(m, d). (d, the (map_of tbl (month, d)))) (filter (\<lambda>(m, d). m = month) keys))"
    using Cons by simp
  show ?case
  proof (cases "m = month")
    case False
    then show ?thesis by (simp add: key IH)
  next
    case True
    have "(month, d) \<in> fst ` set tbl" using Cons.prems key True by simp
    then have "map_of tbl (month, d) \<noteq> None" by (simp add: map_of_eq_None_iff)
    then obtain name where "map_of tbl (month, d) = Some name" by blast
    then show ?thesis by (simp add: key True IH)
  qed
qed

lemma distinct_map_sort_key: "distinct (map f (sort_key g xs)) = distinct (map f xs)"
  by (simp add: distinct_map)

lemma month_races_sorted:
  assumes "distinct (map fst tbl)"
  shows "\<exists>races. month_races tbl month = Inr races \<and> sorted_wrt (<) (map fst races) \<and>
           set races = {(d, name). ((month, d), name) \<in> set tbl}"
proof -
  let ?keys = "filter (\<lambda>(m, d). m = month) (map fst tbl)"
  let ?rs = "map (\<lambda>(m, d). (d, the (map_of tbl (month, d)))) ?keys"
  have rs: "races_of tbl month (map fst tbl) = Inr ?rs"
    by (rule races_of_Inr) simp
  have fst_rs: "map fst ?rs = map snd ?keys"
    by (simp add: case_prod_unfold comp_def)
  have "inj_on snd (set ?keys)"
    by (auto simp: inj_on_def)
  moreover have "distinct ?keys" using assms by simp
  ultimately have "distinct (map fst ?rs)"
    unfolding fst_rs by (simp only: distinct_map simp_thms)
  then have "distinct (map fst (sort_key fst ?rs))"
    by (simp only: distinct_map_sort_key)
  moreover have "sorted (map fst (sort_key fst ?rs))" by (rule sorted_sort_key)
  ultimately have sorted: "sorted_wrt (<) (map fst (sort_key fst ?rs))"
    by (simp only: strict_sorted_iff simp_thms)
  have "set ?rs = {(d, name). ((month, d), name) \<in> set tbl}"
  proof (intro set_eqI iffI)
    fix e assume "e \<in> set ?rs"
    then obtain m d where k: "(m, d) \<in> set (map fst tbl)" "m = month"
        and e: "e = (d, the (map_of tbl (month, d)))" by auto
    from k obtain name where n: "((month, d), name) \<in> set tbl" by auto
    then have "map_of tbl (month, d) = Some name" using assms by simp
    then show "e \<in> {(d, name). ((month, d), name) \<in> set tbl}" using e n by simp
  next
    fix e assume "e \<in> {(d, name). ((month, d), name) \<in> set tbl}"
    then obtain d name where e: "e = (d, name)" and n: "((month, d), name) \<in> set tbl" by auto
    then have l: "map_of tbl (month, d) = Some name" using assms by simp
    have "(month, d) \<in> set ?keys" using n by (simp add: rev_image_eqI)
    then have "(\<lambda>(m, d). (d, the (map_of tbl (month, d)))) (month, d) \<in> set ?rs"
      unfolding set_map by (rule imageI)
    then show "e \<in> set ?rs" by (simp add: e l)
  qed
  then have "set (sort_key fst ?rs) = {(d, name). ((month, d), name) \<in> set tbl}"
    by (simp only: set_sort)
  then show ?thesis using sorted by (simp only: month_races_def rs sum.case) blast
qed

lemma month_races_2026:
  "month_races race_sundays 1 = Inr []"
  "month_races race_sundays 2 = Inr []"
  "month_races race_sundays 3 = Inr [(8, ''AUSTRALIA''), (15, ''CHINA''), (29, ''JAPAN'')]"
  "month_races race_sundays 4 = Inr [(12, ''BAHRAIN''), (19, ''SAUDI ARABIA'')]"
  "month_races race_sundays 5 = Inr [(3, ''MIAMI''), (24, ''CANADA'')]"
  "month_races race_sundays 6 = Inr [(7, ''MONACO''), (14, ''BARCELONA''), (28, ''AUSTRIA'')]"
  "month_races race_sundays 7 = Inr [(5, ''GREAT BRITAIN''), (19, ''BELGIUM''), (26, ''HUNGARY'')]"
  "month_races race_sundays 8 = Inr [(23, ''NETHERLANDS'')]"
  "month_races race_sundays 9 = Inr [(6, ''ITALY''), (13, ''MADRID''), (26, ''AZERBAIJAN'')]"
  "month_races race_sundays 10 = Inr [(11, ''SINGAPORE''), (25, ''AUSTIN'')]"
  "month_races race_sundays 11 =
     Inr [(1, ''MEXICO''), (8, ''BRAZIL''), (21, ''LAS VEGAS''), (29, ''QATAR'')]"
  "month_races race_sundays 12 = Inr [(6, ''ABU DHABI'')]"
  by code_simp+

lemma unsorted_table_races:
  "month_races unsorted_table 5 = Inr [(8, ''MIAMI''), (15, ''CANADA''), (29, ''MONACO'')]"
  by code_simp

text \<open>
  C6. For every table whose keys (month, day) are distinct, as the keys of a Python
  dictionary always are, and for every month, the list of races that \<^verbatim>\<open>draw_month\<close>
  renders (lines 220 and 221) consists of exactly the table's entries of that month, and
  their days are strictly ascending: the list is sorted by day and no two days are equal.
  The keys of \<^verbatim>\<open>race_sundays\<close> are distinct. The witness is the example of the
  specification: entries on days 8, 29, 15 of one month are rendered as 8, 15, 29.
\<close>

theorem month_races_strictly_sorted:
  assumes "distinct (map fst tbl)"
  shows "(\<exists>races. month_races tbl month = Inr races \<and>
            sorted_wrt (<) (map fst races) \<and>
            set races = {(d, name). ((month, d), name) \<in> set tbl}) \<and>
         distinct (map fst race_sundays)"
  using month_races_sorted [OF assms] race_sundays_distinct by blast

theorem month_races_strictly_sorted_witness:
  "distinct (map fst unsorted_table) \<and>
   map fst (map fst unsorted_table) = [5, 5, 5] \<and>
   map snd (map fst unsorted_table) = [8, 29, 15] \<and>
   (\<exists>races. month_races unsorted_table 5 = Inr races \<and>
      map fst races = [8, 15, 29] \<and>
      sorted_wrt (<) (map fst races) \<and>
      set races = {(d, name). ((5, d), name) \<in> set unsorted_table})"
proof -
  have d: "distinct (map fst unsorted_table)"
    by (simp add: unsorted_table_def)
  from month_races_strictly_sorted [OF d, of 5] obtain races where
      r: "month_races unsorted_table 5 = Inr races"
      and s: "sorted_wrt (<) (map fst races)"
      and e: "set races = {(d, name). ((5, d), name) \<in> set unsorted_table}"
    by blast
  from r have "races = [(8, ''MIAMI''), (15, ''CANADA''), (29, ''MONACO'')]"
    by (simp add: unsorted_table_races)
  then have k: "map fst races = [8, 15, 29]" by simp
  have t: "map fst (map fst unsorted_table) = [5, 5, 5]"
      "map snd (map fst unsorted_table) = [8, 29, 15]"
    by (simp_all add: unsorted_table_def)
  show ?thesis
    by (intro conjI exI [of _ races]) (rule d t r k s e)+
qed

subsection \<open>The loops over the day matrix\<close>

lemma underline_days_2026:
  "list_all (\<lambda>month. case underline_days race_sundays month of Inl e \<Rightarrow> False | Inr ul \<Rightarrow> True)
     [1, 2, 3, 4, 5, 6, 7, 8, 9, 10, 11, 12]"
  by code_simp

lemma for_each_Inr:
  "(\<And>a. a \<in> set as \<Longrightarrow> body a = Inr (f a)) \<Longrightarrow> for_each body as = Inr (concat (map f as))"
  by (induction as) simp_all

lemma getitem_nat: "n < length xs \<Longrightarrow> getitem xs (int n) = Inr (xs ! n)"
  by (simp add: getitem_def)

lemma draw_days_Inr:
  assumes "6 \<le> length weeks" and "\<And>r. r < 6 \<Longrightarrow> 7 \<le> length (weeks ! r)"
  shows "draw_days env th x y w h month weeks ul =
     Inr (concat (map (\<lambda>r. concat (map (\<lambda>col. draw_day env th x y w h month ul r col (weeks ! r ! col))
        [0 ..< 7])) [0 ..< 6]))"
  unfolding draw_days_def
proof (rule for_each_Inr)
  fix r :: nat assume "r \<in> set [0 ..< 6]"
  then have r: "r < 6" by simp
  then have g: "getitem weeks (int r) = Inr (weeks ! r)" using assms(1) by (simp add: getitem_nat)
  have "for_each (\<lambda>col. case getitem (weeks ! r) (int col) of Inl e \<Rightarrow> Inl e
            | Inr day \<Rightarrow> Inr (draw_day env th x y w h month ul r col day)) [0 ..< 7]
      = Inr (concat (map (\<lambda>col. draw_day env th x y w h month ul r col (weeks ! r ! col)) [0 ..< 7]))"
  proof (rule for_each_Inr)
    fix col :: nat assume "col \<in> set [0 ..< 7]"
    then have "col < length (weeks ! r)" using assms(2) [OF r] by simp
    then show "(case getitem (weeks ! r) (int col) of Inl e \<Rightarrow> Inl e
            | Inr day \<Rightarrow> Inr (draw_day env th x y w h month ul r col day))
         = Inr (draw_day env th x y w h month ul r col (weeks ! r ! col))"
      by (simp add: getitem_nat)
  qed
  then show "(case getitem weeks (int r) of Inl e \<Rightarrow> Inl e
        | Inr week \<Rightarrow> for_each (\<lambda>col. case getitem week (int col) of Inl e \<Rightarrow> Inl e
            | Inr day \<Rightarrow> Inr (draw_day env th x y w h month ul r col day)) [0 ..< 7])
      = Inr (concat (map (\<lambda>col. draw_day env th x y w h month ul r col (weeks ! r ! col)) [0 ..< 7]))"
    by (simp add: g)
qed

lemma concat_map_product:
  "concat (map (\<lambda>r. concat (map (f r) cs)) rs) =
     concat (map (\<lambda>(r, c). f r c) (List.product rs cs))"
  by (induction rs) (simp_all add: comp_def)

lemma underlined_in_grid_Inr:
  assumes "padded_weeks month = Inr weeks" and "6 \<le> length weeks"
    and "\<And>r. r < 6 \<Longrightarrow> 7 \<le> length (weeks ! r)"
    and "underline_days tbl month = Inr ul"
  shows "underlined_in_grid tbl month =
     Inr (concat (map (\<lambda>r. concat (map (\<lambda>col. if weeks ! r ! col \<noteq> 0 \<and> (month, weeks ! r ! col) \<in> ul
                                              then [weeks ! r ! col] else []) [0 ..< 7])) [0 ..< 6]))"
proof -
  have "for_each
          (\<lambda>r. case getitem weeks (int r) of
                 Inl e \<Rightarrow> Inl e
               | Inr week \<Rightarrow>
                   for_each
                     (\<lambda>col. case getitem week (int col) of
                              Inl e \<Rightarrow> Inl e
                            | Inr day \<Rightarrow> Inr (if day \<noteq> 0 \<and> (month, day) \<in> ul then [day] else []))
                     [0 ..< (7::nat)])
          [0 ..< (6::nat)]
      = Inr (concat (map (\<lambda>r. concat (map (\<lambda>col. if weeks ! r ! col \<noteq> 0 \<and> (month, weeks ! r ! col) \<in> ul
                                              then [weeks ! r ! col] else []) [0 ..< 7])) [0 ..< 6]))"
  proof (rule for_each_Inr)
    fix r :: nat assume "r \<in> set [0 ..< 6]"
    then have r: "r < 6" by simp
    then have g: "getitem weeks (int r) = Inr (weeks ! r)" using assms(2) by (simp add: getitem_nat)
    have "for_each (\<lambda>col. case getitem (weeks ! r) (int col) of Inl e \<Rightarrow> Inl e
              | Inr day \<Rightarrow> Inr (if day \<noteq> 0 \<and> (month, day) \<in> ul then [day] else [])) [0 ..< 7]
        = Inr (concat (map (\<lambda>col. if weeks ! r ! col \<noteq> 0 \<and> (month, weeks ! r ! col) \<in> ul
                                  then [weeks ! r ! col] else []) [0 ..< 7]))"
    proof (rule for_each_Inr)
      fix col :: nat assume "col \<in> set [0 ..< 7]"
      then have "col < length (weeks ! r)" using assms(3) [OF r] by simp
      then show "(case getitem (weeks ! r) (int col) of Inl e \<Rightarrow> Inl e
              | Inr day \<Rightarrow> Inr (if day \<noteq> 0 \<and> (month, day) \<in> ul then [day] else []))
           = Inr (if weeks ! r ! col \<noteq> 0 \<and> (month, weeks ! r ! col) \<in> ul
                  then [weeks ! r ! col] else [])"
        by (simp add: getitem_nat)
    qed
    then show "(case getitem weeks (int r) of Inl e \<Rightarrow> Inl e
          | Inr week \<Rightarrow> for_each (\<lambda>col. case getitem week (int col) of Inl e \<Rightarrow> Inl e
              | Inr day \<Rightarrow> Inr (if day \<noteq> 0 \<and> (month, day) \<in> ul then [day] else [])) [0 ..< 7])
        = Inr (concat (map (\<lambda>col. if weeks ! r ! col \<noteq> 0 \<and> (month, weeks ! r ! col) \<in> ul
                                  then [weeks ! r ! col] else []) [0 ..< 7]))"
      by (simp add: g)
  qed
  then show ?thesis by (simp add: underlined_in_grid_def assms(1,4))
qed

lemma underlined_november: "underlined_in_grid race_sundays 11 = Inr [1, 6, 7, 8, 19, 20, 21, 27, 28, 29]"
  by code_simp

lemma before_november: "date_sub_days (2026, 11, 1) 1 = Inr (2026, 10, 31)"
   "date_sub_days (2026, 11, 1) 2 = Inr (2026, 10, 30)"
  by code_simp+

subsection \<open>The flag image provider\<close>

lemma get_flag_image_cached:
  "flag_cache fs cc = Some v \<Longrightarrow> get_flag_image env cc fs = (v, fs)"
  by (simp add: get_flag_image_def)

lemma get_flag_image_records:
  "get_flag_image env cc fs = (r, fs') \<Longrightarrow> flag_cache fs' cc = Some r"
  by (auto simp: get_flag_image_def local_stage_def network_stage_def Let_def
      split: option.splits if_splits)

lemma get_flag_image_keeps:
  "get_flag_image env cc' fs = (r, fs') \<Longrightarrow> flag_cache fs cc = Some v \<Longrightarrow> flag_cache fs' cc = Some v"
  by (auto simp: get_flag_image_def local_stage_def network_stage_def Let_def
      split: option.splits if_splits)

lemma get_flag_images_keeps:
  "get_flag_images env ccs fs = (rs, fs') \<Longrightarrow> flag_cache fs cc = Some v \<Longrightarrow> flag_cache fs' cc = Some v"
proof (induction ccs arbitrary: fs rs fs')
  case Nil
  then show ?case by simp
next
  case (Cons c ccs)
  obtain r fs1 where 1: "get_flag_image env c fs = (r, fs1)" by (cases "get_flag_image env c fs")
  obtain rs1 fs2 where 2: "get_flag_images env ccs fs1 = (rs1, fs2)" by (cases "get_flag_images env ccs fs1")
  from Cons.prems(1) 1 2 have "fs' = fs2" by simp
  moreover have "flag_cache fs1 cc = Some v" using 1 Cons.prems(2) by (rule get_flag_image_keeps)
  ultimately show ?case using Cons.IH [OF 2] by simp
qed

text \<open>
  C4, as stated, fails. The claim lists a missing local file and a local decoding error
  among the failures after which \<^verbatim>\<open>None\<close> is cached and returned. The code does
  otherwise by design: after either of them it goes on to the network (lines 84 to 89),
  and when the request, the write and the decoding succeed, the image is cached and
  returned. Below, the local file exists and is rejected, or is missing, and the result is
  an image.
\<close>

theorem local_failure_then_network_image:
  "flag_cache (start_state [''au'' \<mapsto> ''broken'']) ''au'' = None \<and>
   files (start_state [''au'' \<mapsto> ''broken'']) ''au'' = Some ''broken'' \<and>
   \<not> reads_file env_online ''au'' ''broken'' \<and>
   fst (get_flag_image env_online ''au'' (start_state [''au'' \<mapsto> ''broken''])) = Some (ImageReader 0 ''PNG'') \<and>
   flag_cache (snd (get_flag_image env_online ''au'' (start_state [''au'' \<mapsto> ''broken'']))) ''au''
     = Some (Some (ImageReader 0 ''PNG'')) \<and>
   files (start_state Map.empty) ''au'' = None \<and>
   fst (get_flag_image env_online ''au'' (start_state Map.empty)) = Some (ImageReader 0 ''PNG'')"
  by (simp add: get_flag_image_def local_stage_def network_stage_def start_state_def
      env_online_def Let_def)

text \<open>
  C4, amended. When the code is not in the cache, the local stage gives no image (the file
  is missing or \<^verbatim>\<open>ImageReader\<close> rejects it) and the network stage fails (the request
  raises or times out, or the bytes cannot be written, or they cannot be decoded), then
  \<^verbatim>\<open>None\<close> is stored in the cache for the code and returned, after one request; a
  later call for the code returns \<^verbatim>\<open>None\<close> and leaves the state as it is, so it
  makes no further attempt.
\<close>

theorem network_failure_is_cached:
  assumes cache: "flag_cache fs cc = None"
    and loc: "files fs cc = None \<or> (\<exists>content. files fs cc = Some content \<and> \<not> reads_file env cc content)"
    and net: "urlopen_read env (length (requests fs)) (flag_url cc) = None \<or>
       (\<exists>data. urlopen_read env (length (requests fs)) (flag_url cc) = Some data \<and>
           (\<not> writes_file env cc data \<or> \<not> reads_bytes env data))"
  shows "\<exists>fs'. get_flag_image env cc fs = (None, fs') \<and> flag_cache fs' cc = Some None \<and>
           requests fs' = requests fs @ [flag_url cc] \<and>
           (\<forall>env'. get_flag_image env' cc fs' = (None, fs'))"
proof -
  have l: "local_stage env cc fs = None" using loc by (auto simp: local_stage_def)
  define fs' where "fs' = snd (network_stage env cc fs)"
  have "fst (network_stage env cc fs) = None" using net
    by (auto simp: network_stage_def Let_def)
  then have n: "network_stage env cc fs = (None, fs')"
    by (simp add: fs'_def prod_eq_iff)
  have c: "flag_cache fs' cc = Some None" using net
    by (auto simp: fs'_def network_stage_def Let_def)
  have r: "requests fs' = requests fs @ [flag_url cc]"
    by (auto simp: fs'_def network_stage_def Let_def split: option.splits)
  have "get_flag_image env cc fs = (None, fs')" using cache l n by (simp add: get_flag_image_def)
  moreover have "\<forall>env'. get_flag_image env' cc fs' = (None, fs')" using c by (simp add: get_flag_image_cached)
  ultimately show ?thesis using c r by blast
qed

theorem network_failure_is_cached_witness:
  "flag_cache (start_state Map.empty) ''au'' = None \<and>
   files (start_state Map.empty) ''au'' = None \<and>
   urlopen_read env_offline (length (requests (start_state Map.empty))) (flag_url ''au'') = None \<and>
   (\<exists>fs'. get_flag_image env_offline ''au'' (start_state Map.empty) = (None, fs') \<and>
      flag_cache fs' ''au'' = Some None \<and>
      requests fs' = [flag_url ''au''] \<and>
      get_flag_image env_online ''au'' fs' = (None, fs'))"
proof -
  have 1: "flag_cache (start_state Map.empty) ''au'' = None"
    and 2: "files (start_state Map.empty) ''au'' = None"
    and 3: "urlopen_read env_offline (length (requests (start_state Map.empty))) (flag_url ''au'') = None"
    and 4: "requests (start_state Map.empty) = []"
    by (simp_all add: start_state_def env_offline_def)
  from network_failure_is_cached [of "start_state Map.empty" "''au''" env_offline] 1 2 3
  obtain fs' where "get_flag_image env_offline ''au'' (start_state Map.empty) = (None, fs')"
      "flag_cache fs' ''au'' = Some None"
      "requests fs' = requests (start_state Map.empty) @ [flag_url ''au'']"
      "\<forall>env'. get_flag_image env' ''au'' fs' = (None, fs')"
    by blast
  then show ?thesis using 1 2 3 4 by auto
qed

text \<open>
  For a code that is not in the cache, \<^verbatim>\<open>None\<close> is the result exactly when both
  stages fail.
\<close>

lemma no_image_iff_both_stages_fail:
  assumes cache: "flag_cache fs cc = None"
  shows "fst (get_flag_image env cc fs) = None \<longleftrightarrow>
     (files fs cc = None \<or> (\<exists>content. files fs cc = Some content \<and> \<not> reads_file env cc content)) \<and>
     (urlopen_read env (length (requests fs)) (flag_url cc) = None \<or>
       (\<exists>data. urlopen_read env (length (requests fs)) (flag_url cc) = Some data \<and>
           (\<not> writes_file env cc data \<or> \<not> reads_bytes env data)))"
  using cache
  by (auto simp: get_flag_image_def local_stage_def network_stage_def Let_def split: option.splits)

text \<open>
  C5. A call returns what the cache then holds for the code, and the cache keeps it: after
  any further calls, for any codes and in any world, a call with the same code returns the
  same result (the same handle, or \<^verbatim>\<open>None\<close> after a failure) and leaves the state
  untouched, so it sends no request and creates no image.
\<close>

theorem cached_result_returned_again:
  assumes "get_flag_image env cc fs = (r, fs1)"
    and "get_flag_images env' ccs fs1 = (rs, fs2)"
  shows "get_flag_image env'' cc fs2 = (r, fs2)"
proof -
  have "flag_cache fs1 cc = Some r" using assms(1) by (rule get_flag_image_records)
  then have "flag_cache fs2 cc = Some r" using assms(2) get_flag_images_keeps by blast
  then show ?thesis by (rule get_flag_image_cached)
qed

theorem cached_result_returned_again_witness:
  "fst (get_flag_image env_offline ''au'' (start_state Map.empty)) = None \<and>
   fst (get_flag_images env_online [''jp'', ''au'']
          (snd (get_flag_image env_offline ''au'' (start_state Map.empty))))
     = [Some (ImageReader 0 ''PNG''), None] \<and>
   get_flag_image env_online ''au''
     (snd (get_flag_images env_online [''jp'', ''au'']
             (snd (get_flag_image env_offline ''au'' (start_state Map.empty)))))
     = (None,
        snd (get_flag_images env_online [''jp'', ''au'']
               (snd (get_flag_image env_offline ''au'' (start_state Map.empty))))) \<and>
   requests (snd (get_flag_images env_online [''jp'', ''au'']
                    (snd (get_flag_image env_offline ''au'' (start_state Map.empty)))))
     = [flag_url ''au'', flag_url ''jp'']"
proof -
  let ?s1 = "snd (get_flag_image env_offline ''au'' (start_state Map.empty))"
  let ?run = "get_flag_images env_online [''jp'', ''au''] ?s1"
  have first: "get_flag_image env_offline ''au'' (start_state Map.empty) = (None, ?s1)"
    by (simp add: get_flag_image_def local_stage_def network_stage_def start_state_def
        env_offline_def Let_def)
  have run: "?run = (fst ?run, snd ?run)"
    by simp
  have again: "get_flag_image env_online ''au'' (snd ?run) = (None, snd ?run)"
    using cached_result_returned_again [OF first run] .
  have results: "fst ?run = [Some (ImageReader 0 ''PNG''), None]"
    and reqs: "requests (snd ?run) = [flag_url ''au'', flag_url ''jp'']"
    by (simp_all add: get_flag_image_def local_stage_def network_stage_def start_state_def
        env_offline_def env_online_def flag_url_def Let_def)
  have none: "fst (get_flag_image env_offline ''au'' (start_state Map.empty)) = None"
    by (metis first fst_conv)
  show ?thesis
    by (intro conjI) (rule none results again reqs)+
qed

subsection \<open>What a month block draws\<close>

lemma drawn_strings_append: "drawn_strings (a @ b) = drawn_strings a @ drawn_strings b"
  by (induction a rule: drawn_strings.induct) simp_all

lemma draw_day_plain: "drawn_strings (draw_day env th x y w h month ul r col day) = [] \<and>
   filter frame_op (draw_day env th x y w h month ul r col day) = []"
  by (simp add: draw_day_def Let_def)

lemma drawn_strings_concat_Nil: "(\<And>a. a \<in> set as \<Longrightarrow> drawn_strings (f a) = []) \<Longrightarrow> drawn_strings (concat (map f as)) = []"
  by (induction as) (simp_all add: drawn_strings_append)

lemma filter_concat_Nil: "(\<And>a. a \<in> set as \<Longrightarrow> filter P (f a) = []) \<Longrightarrow> filter P (concat (map f as)) = []"
  by (induction as) simp_all

lemma draw_weekdays_plain: "drawn_strings (draw_weekdays th x y w) = [] \<and> filter frame_op (draw_weekdays th x y w) = []"
  by (simp add: draw_weekdays_def weekdays_def enumerate_eq_zip upt_rec Let_def)

lemma draw_grid_lines_plain: "drawn_strings (draw_grid_lines th x y w h) = [] \<and> filter frame_op (draw_grid_lines th x y w h) = []"
  by (simp add: draw_grid_lines_def upt_rec drawn_strings_append Let_def)

lemma draw_flag_plain:
  "drawn_strings (fst (draw_flag codes env x y0 name fs)) = [] \<and>
   filter frame_op (fst (draw_flag codes env x y0 name fs)) = []"
  by (simp add: draw_flag_def Let_def split: option.splits prod.splits)

lemma race_lines_strings:
  "drawn_strings (fst (draw_race_lines codes env x races y0 fs)) =
     map (\<lambda>(i, d, name). (text_indent x, y0 - real i * line_h, race_text d name)) (enumerate 0 races)"
proof (induction races arbitrary: y0 fs)
  case Nil
  then show ?case by simp
next
  case (Cons race races)
  obtain d name where race: "race = (d, name)" by (cases race)
  have shift: "map (\<lambda>(i, d, name). (text_indent x, y0 - line_h - real i * line_h, race_text d name))
          (enumerate 0 races)
      = map (\<lambda>(i, d, name). (text_indent x, y0 - real i * line_h, race_text d name))
          (enumerate (Suc 0) races)"
    by (simp add: enumerate_Suc_eq case_prod_unfold algebra_simps)
  show ?case
    by (simp add: race case_prod_unfold drawn_strings_append Cons.IH draw_flag_plain)
       (simp add: shift [unfolded case_prod_unfold])
qed

lemma race_lines_frame:
  "filter frame_op (fst (draw_race_lines codes env x races y0 fs)) = []"
  by (induction races arbitrary: y0 fs) (auto simp: case_prod_unfold draw_flag_plain)

lemma getitem_month_name:
  "1 \<le> month \<Longrightarrow> month \<le> 12 \<Longrightarrow> getitem month_name month = Inr (month_name ! nat month)"
  by (simp add: getitem_def month_name_def)

lemma draw_month_grid_Inr:
  assumes "getitem month_name month = Inr name"
    and "padded_weeks month = Inr weeks" and "6 \<le> length weeks" and "\<And>r. r < 6 \<Longrightarrow> 7 \<le> length (weeks ! r)"
    and "underline_days tbl month = Inr ul"
  shows "\<exists>grid_ops. draw_month_grid tbl env th x y w h month = Inr grid_ops \<and>
           drawn_strings grid_ops = [(x + pad, y - pad - 10, upper name)] \<and>
           filter frame_op grid_ops = []"
proof -
  let ?days = "concat (map (\<lambda>r. concat (map (\<lambda>col. draw_day env th x y w h month ul r col (weeks ! r ! col))
        [0 ..< 7])) [0 ..< 6])"
  have d: "draw_days env th x y w h month weeks ul = Inr ?days"
    using assms(3,4) by (rule draw_days_Inr)
  have s: "drawn_strings ?days = []"
    by (intro drawn_strings_concat_Nil) (simp add: draw_day_plain)
  have f: "filter frame_op ?days = []"
    by (intro filter_concat_Nil) (simp add: draw_day_plain)
  show ?thesis
    by (simp add: draw_month_grid_def assms(1,2,5) d drawn_strings_append s f
        draw_weekdays_plain draw_grid_lines_plain)
qed

lemma draw_month_Inr:
  assumes "draw_month_grid tbl env th x y w h month = Inr grid_ops"
    and "month_races tbl month = Inr races"
  shows "draw_month tbl codes env th x y w h month fs =
     Inr (grid_ops @ [SetFillColor (ink th), SetFont (font th) 8] @
            fst (draw_race_lines codes env x races (grid_bottom y h - gap_below_grid) fs),
          snd (draw_race_lines codes env x races (grid_bottom y h - gap_below_grid) fs))"
  by (simp add: draw_month_def assms case_prod_unfold)

text \<open>
  C9. Whenever \<^verbatim>\<open>draw_month\<close> returns, what it drew is the grid part followed by the
  race list, and the texts of the race list are one line for each race of the month in the
  sorted order, whatever the code table and the flag provider answer: a race without a
  flag code has its line, and every line's text starts at
  \<^verbatim>\<open>grid_left + flag_w + 4\<close>, one \<^verbatim>\<open>line_h\<close> below the line before.
\<close>

theorem race_line_drawn_without_flag:
  assumes "draw_month tbl codes env th x y w h month fs = Inr (ops, fs')"
  shows "\<exists>grid_ops races line_ops.
           draw_month_grid tbl env th x y w h month = Inr grid_ops \<and>
           month_races tbl month = Inr races \<and>
           ops = grid_ops @ [SetFillColor (ink th), SetFont (font th) 8] @ line_ops \<and>
           drawn_strings line_ops =
             map (\<lambda>(i, d, name). (grid_left x + flag_w + 4,
                    grid_bottom y h - gap_below_grid - real i * line_h, race_text d name))
                 (enumerate 0 races)"
proof -
  obtain grid_ops where g: "draw_month_grid tbl env th x y w h month = Inr grid_ops"
    using assms by (cases "draw_month_grid tbl env th x y w h month") (simp_all add: draw_month_def)
  obtain races where r: "month_races tbl month = Inr races"
    using assms g by (cases "month_races tbl month") (simp_all add: draw_month_def)
  let ?lines = "fst (draw_race_lines codes env x races (grid_bottom y h - gap_below_grid) fs)"
  have "ops = grid_ops @ [SetFillColor (ink th), SetFont (font th) 8] @ ?lines"
    using assms by (simp add: draw_month_Inr [OF g r])
  moreover have "drawn_strings ?lines =
      map (\<lambda>(i, d, name). (grid_left x + flag_w + 4,
             grid_bottom y h - gap_below_grid - real i * line_h, race_text d name))
          (enumerate 0 races)"
    by (simp add: race_lines_strings text_indent_def)
  ultimately show ?thesis using g r by blast
qed

lemma example_underline: "underline_days example_table 3 = Inr {(3, 6), (3, 7), (3, 8), (3, 13), (3, 14), (3, 15)}"
  by code_simp

lemma example_races: "month_races example_table 3 = Inr [(8, ''AUSTRALIA''), (15, ''ATLANTIS'')]"
  by code_simp

theorem race_line_drawn_without_flag_witness:
  "map_of COUNTRY_FLAG_CODES ''ATLANTIS'' = None \<and>
   (\<exists>ops fs' grid_ops line_ops.
      draw_month example_table COUNTRY_FLAG_CODES env_offline theme_2026 0 0 400 400 3
        (start_state Map.empty) = Inr (ops, fs') \<and>
      ops = grid_ops @ [SetFillColor (ink theme_2026), SetFont (font theme_2026) 8] @ line_ops \<and>
      drawn_strings line_ops =
        [(grid_left 0 + flag_w + 4, grid_bottom 0 400 - gap_below_grid, race_text 8 ''AUSTRALIA''),
         (grid_left 0 + flag_w + 4, grid_bottom 0 400 - gap_below_grid - line_h,
          race_text 15 ''ATLANTIS'')])"
proof -
  have n: "map_of COUNTRY_FLAG_CODES ''ATLANTIS'' = None"
    by (simp add: COUNTRY_FLAG_CODES_def)
  obtain weeks where w: "padded_weeks 3 = Inr weeks" "6 \<le> length weeks"
      "\<And>r. r < 6 \<Longrightarrow> 7 \<le> length (weeks ! r)"
    using padded_weeks_shape [of 3] by auto
  have mn: "getitem month_name 3 = Inr (month_name ! nat 3)"
    by (rule getitem_month_name) simp_all
  obtain grid_ops where g:
      "draw_month_grid example_table env_offline theme_2026 0 0 400 400 3 = Inr grid_ops"
    using draw_month_grid_Inr [OF mn w example_underline] by blast
  obtain ops fs' where d:
      "draw_month example_table COUNTRY_FLAG_CODES env_offline theme_2026 0 0 400 400 3
         (start_state Map.empty) = Inr (ops, fs')"
    using draw_month_Inr [OF g example_races] by blast
  from race_line_drawn_without_flag [OF d] n d show ?thesis
    by (auto simp: example_races enumerate_eq_zip upt_rec)
qed

subsection \<open>The underlines of a race weekend\<close>

text \<open>
  What a month block of the script's table shows underlined: \<^verbatim>\<open>draw_month\<close> returns,
  and the underlined day numbers on its canvas are the days of \<open>underlined_in_grid\<close>, in
  order, whatever the line width at the start.
\<close>

lemma underlined_no_line:
  "list_all (\<lambda>op. \<not> is_line op) ops \<Longrightarrow> underlined lw label ops = []"
  by (induction lw label ops rule: underlined.induct) simp_all

lemma underlined_append_no_line:
  "list_all (\<lambda>op. \<not> is_line op) tail \<Longrightarrow>
     underlined lw label (ops @ tail) = underlined lw label ops"
  by (induction lw label ops rule: underlined.induct) (simp_all add: underlined_no_line)

lemma draw_day_underlined:
  "underlined lw label (draw_day env th x y w h month ul r col day @ rest) =
     (if day \<noteq> 0 \<and> (month, day) \<in> ul then [str_int day] else []) @
     underlined (if day \<noteq> 0 \<and> (month, day) \<in> ul then 0.3 else lw)
       (if day = 0 then label
        else Some (grid_left x + real col * col_w w + col_w w / 2,
                   grid_top y - weekday_row_h - real r * day_row_h h - day_row_h h + 3,
                   str_int day)) rest"
  by (simp add: draw_day_def Let_def)

lemma cells_underlined:
  "underlined lw label
     (concat (map (\<lambda>(r, col). draw_day env th x y w h month ul r col (cell r col)) cells)) =
   map str_int
     (concat (map (\<lambda>(r, col). if cell r col \<noteq> 0 \<and> (month, cell r col) \<in> ul
                                then [cell r col] else []) cells))"
proof (induction cells arbitrary: lw label)
  case Nil
  then show ?case by simp
next
  case (Cons c cells)
  obtain r col where c: "c = (r, col)" by (cases c)
  show ?case by (simp add: c draw_day_underlined Cons.IH)
qed

lemma grid_head_underlined:
  "\<exists>label'. \<forall>rest.
     underlined lw label
       ([SetFillColor (ink th), SetFont (font th) 14,
         DrawString (x + pad) (y - pad - 10) name] @
        draw_weekdays th x y w @ draw_grid_lines th x y w h @
        [SetFont (font th) 8, SetFillColor (ink th)] @ rest)
     = underlined 0.3 label' rest"
  by (rule exI [where x = "Some (grid_left x + real 6 * col_w w + col_w w / 2,
        weekday_center_y y - 2.5, ''S'')"])
    (simp add: draw_weekdays_def draw_grid_lines_def weekdays_def enumerate_eq_zip upt_rec
      Let_def)

lemma draw_flag_no_line:
  "list_all (\<lambda>op. \<not> is_line op) (fst (draw_flag codes env x y0 name fs))"
  by (simp add: draw_flag_def Let_def split: option.splits prod.splits)

lemma race_lines_no_line:
  "list_all (\<lambda>op. \<not> is_line op) (fst (draw_race_lines codes env x races y0 fs))"
  by (induction races arbitrary: y0 fs) (auto simp: case_prod_unfold draw_flag_no_line)

lemma month_2026_underlined:
  assumes "1 \<le> month" and "month \<le> 12"
  shows "\<exists>ops fs' days.
           draw_month race_sundays codes env th x y w h month fs = Inr (ops, fs') \<and>
           underlined_in_grid race_sundays month = Inr days \<and>
           underlined lw None ops = map str_int days"
proof -
  from assms have cases: "month \<in> {1, 2, 3, 4, 5, 6, 7, 8, 9, 10, 11, 12}"
    by (rule month_cases)
  obtain weeks where wk: "padded_weeks month = Inr weeks" "6 \<le> length weeks"
      "\<And>r. r < 6 \<Longrightarrow> 7 \<le> length (weeks ! r)"
    using padded_weeks_shape [OF assms] by blast
  obtain ul where ul: "underline_days race_sundays month = Inr ul"
    using cases underline_days_2026 by (auto split: sum.splits)
  obtain races where rs: "month_races race_sundays month = Inr races"
    using cases month_races_2026 by auto
  let ?cell = "\<lambda>r col. weeks ! r ! col"
  let ?day_ops = "concat (map (\<lambda>(r, col). draw_day env th x y w h month ul r col (?cell r col))
             (List.product [0 ..< 6] [0 ..< 7]))"
  let ?days = "concat (map (\<lambda>(r, col). if ?cell r col \<noteq> 0 \<and> (month, ?cell r col) \<in> ul
                                    then [?cell r col] else [])
             (List.product [0 ..< 6] [0 ..< 7]))"
  let ?grid_ops = "[SetFillColor (ink th), SetFont (font th) 14,
         DrawString (x + pad) (y - pad - 10) (upper (month_name ! nat month))] @
        draw_weekdays th x y w @ draw_grid_lines th x y w h @
        [SetFont (font th) 8, SetFillColor (ink th)] @ ?day_ops"
  let ?lines = "draw_race_lines codes env x races (grid_bottom y h - gap_below_grid) fs"
  let ?tail = "[SetFillColor (ink th), SetFont (font th) 8] @ fst ?lines"
  have d: "draw_days env th x y w h month weeks ul = Inr ?day_ops"
    by (simp only: draw_days_Inr [OF wk(2,3)] concat_map_product)
  have u: "underlined_in_grid race_sundays month = Inr ?days"
    by (simp only: underlined_in_grid_Inr [OF wk ul] concat_map_product)
  have g: "draw_month_grid race_sundays env th x y w h month = Inr ?grid_ops"
    by (simp add: draw_month_grid_def getitem_month_name [OF assms] wk(1) ul d)
  have m: "draw_month race_sundays codes env th x y w h month fs = Inr (?grid_ops @ ?tail, snd ?lines)"
    using draw_month_Inr [OF g rs, of codes fs] by simp
  obtain label' where "\<forall>rest. underlined lw None (?grid_ops) = underlined 0.3 label' ?day_ops"
    using grid_head_underlined [of lw None th x y "upper (month_name ! nat month)" w h] by blast
  then have gu: "underlined lw None ?grid_ops = map str_int ?days"
    by (simp only: cells_underlined)
  have "list_all (\<lambda>op. \<not> is_line op) ?tail"
    by (simp add: race_lines_no_line)
  then have "underlined lw None (?grid_ops @ ?tail) = map str_int ?days"
    by (simp only: underlined_append_no_line gu)
  with m u show ?thesis by blast
qed

lemma weekend_label_check_2026:
  "list_all (\<lambda>((m, d), name). weekend_label_check m d) race_sundays"
  by code_simp

lemma earlier_label_checkD:
  assumes "earlier_label_check m d labels k"
  shows "\<exists>pm pd. date_sub_days (2026, m, d) k = Inr (2026, pm, pd) \<and>
           ((str_int (d - k) \<in> set labels) = (pm = m)) \<and>
           (pm = m \<longrightarrow> pd = d - k) \<and>
           (pm \<noteq> m \<longrightarrow> pm = m - 1 \<and> 1 \<le> pm \<and> str_int pd \<notin> set labels \<and>
              (\<exists>prior. underlined_in_grid race_sundays pm = Inr prior \<and>
                 str_int pd \<notin> set (map str_int prior)))"
proof -
  from assms obtain py pm pd where s: "date_sub_days (2026, m, d) k = Inr (py, pm, pd)"
    by (cases "date_sub_days (2026, m, d) k") (auto simp: earlier_label_check_def)
  from assms s have py: "py = 2026" and iff: "(str_int (d - k) \<in> set labels) = (pm = m)"
    and rest: "if pm = m then pd = d - k
               else pm = m - 1 \<and> 1 \<le> pm \<and> str_int pd \<notin> set labels \<and>
                    (case underlined_in_grid race_sundays pm of
                       Inl e \<Rightarrow> False
                     | Inr prior \<Rightarrow> str_int pd \<notin> set (map str_int prior))"
    by (simp_all add: earlier_label_check_def)
  show ?thesis
  proof (cases "pm = m")
    case True
    then show ?thesis using s py iff rest by simp
  next
    case False
    with rest have r: "pm = m - 1 \<and> 1 \<le> pm \<and> str_int pd \<notin> set labels \<and>
        (case underlined_in_grid race_sundays pm of
           Inl e \<Rightarrow> False
         | Inr prior \<Rightarrow> str_int pd \<notin> set (map str_int prior))"
      by (cases "pm = m") auto
    then have a: "pm = m - 1" "1 \<le> pm" "str_int pd \<notin> set labels" by blast+
    from r have b: "case underlined_in_grid race_sundays pm of
        Inl e \<Rightarrow> False | Inr prior \<Rightarrow> str_int pd \<notin> set (map str_int prior)" by blast
    from b obtain prior where "underlined_in_grid race_sundays pm = Inr prior"
        "str_int pd \<notin> set (map str_int prior)"
      by (cases "underlined_in_grid race_sundays pm") simp_all
    then show ?thesis using s py iff a False by simp
  qed
qed

lemma earlier_day_on_canvas:
  assumes chk: "earlier_label_check m d (underlined lw None ops) k" and m: "m \<le> 12"
  shows "\<exists>pm pd. date_sub_days (2026, m, d) k = Inr (2026, pm, pd) \<and>
           ((str_int (d - k) \<in> set (underlined lw None ops)) = (pm = m)) \<and>
           (pm = m \<longrightarrow> pd = d - k) \<and>
           (pm \<noteq> m \<longrightarrow> pm = m - 1 \<and> str_int pd \<notin> set (underlined lw None ops) \<and>
              (\<exists>prior fs2. draw_month race_sundays codes env th x y w h pm fs = Inr (prior, fs2) \<and>
                 str_int pd \<notin> set (underlined lw2 None prior)))"
proof -
  from earlier_label_checkD [OF chk] obtain pm pd where
      s: "date_sub_days (2026, m, d) k = Inr (2026, pm, pd)"
      and iff: "(str_int (d - k) \<in> set (underlined lw None ops)) = (pm = m)"
      and same: "pm = m \<longrightarrow> pd = d - k"
      and other: "pm \<noteq> m \<longrightarrow> pm = m - 1 \<and> 1 \<le> pm \<and> str_int pd \<notin> set (underlined lw None ops) \<and>
              (\<exists>prior. underlined_in_grid race_sundays pm = Inr prior \<and>
                 str_int pd \<notin> set (map str_int prior))"
    by blast
  have "pm = m - 1 \<and> str_int pd \<notin> set (underlined lw None ops) \<and>
          (\<exists>prior fs2. draw_month race_sundays codes env th x y w h pm fs = Inr (prior, fs2) \<and>
             str_int pd \<notin> set (underlined lw2 None prior))" if ne: "pm \<noteq> m"
  proof -
    from other ne obtain prior where a: "pm = m - 1" "1 \<le> pm"
        "str_int pd \<notin> set (underlined lw None ops)"
        and p: "underlined_in_grid race_sundays pm = Inr prior"
        "str_int pd \<notin> set (map str_int prior)"
      by blast
    have "pm \<le> 12" using a(1) m by simp
    from month_2026_underlined [OF a(2) this, of codes env th x y w h fs lw2]
    obtain pops fs2 days where
        "draw_month race_sundays codes env th x y w h pm fs = Inr (pops, fs2)"
        "underlined_in_grid race_sundays pm = Inr days"
        "underlined lw2 None pops = map str_int days"
      by blast
    with p a show ?thesis by auto
  qed
  with s iff same show ?thesis by blast
qed

text \<open>
  C2. For every entry (m, d) of the table, \<^verbatim>\<open>draw_month\<close> draws month m's block, and
  on its canvas the number of day d is underlined. For each of the two days before the
  date (2026, m, d): the number \<open>d - k\<close> is underlined in month m's block exactly when
  that day falls in month m; when it falls in the month before, its number is underlined
  neither in month m's block nor in the block of the month before, wherever and in
  whatever world that block is drawn.
\<close>

theorem race_weekend_underlines:
  assumes "((m, d), name) \<in> set race_sundays"
  shows "\<exists>ops fs'. draw_month race_sundays codes env th x y w h m fs = Inr (ops, fs') \<and>
           date 2026 m d = Inr (2026, m, d) \<and>
           str_int d \<in> set (underlined lw None ops) \<and>
           (\<forall>k \<in> {1, 2}. \<exists>pm pd.
               date_sub_days (2026, m, d) k = Inr (2026, pm, pd) \<and>
               ((str_int (d - k) \<in> set (underlined lw None ops)) = (pm = m)) \<and>
               (pm = m \<longrightarrow> pd = d - k) \<and>
               (pm \<noteq> m \<longrightarrow> pm = m - 1 \<and> str_int pd \<notin> set (underlined lw None ops) \<and>
                  (\<exists>prior fs2.
                      draw_month race_sundays codes2 env2 th2 x2 y2 w2 h2 pm fs0 = Inr (prior, fs2) \<and>
                      str_int pd \<notin> set (underlined lw2 None prior))))"
proof -
  from assms weekend_label_check_2026 have wc: "weekend_label_check m d"
    by (auto simp: list_all_iff)
  then obtain days where u: "underlined_in_grid race_sundays m = Inr days"
    by (cases "underlined_in_grid race_sundays m") (simp_all add: weekend_label_check_def)
  from wc u have range: "1 \<le> m" "m \<le> 12"
    and dt: "date 2026 m d = Inr (2026, m, d)"
    and din: "str_int d \<in> set (map str_int days)"
    and k1: "earlier_label_check m d (map str_int days) 1"
    and k2: "earlier_label_check m d (map str_int days) 2"
    by (simp_all add: weekend_label_check_def)
  from month_2026_underlined [OF range, of codes env th x y w h fs lw] u
  obtain ops fs' where dm: "draw_month race_sundays codes env th x y w h m fs = Inr (ops, fs')"
    and un: "underlined lw None ops = map str_int days"
    by auto
  have e1: "earlier_label_check m d (underlined lw None ops) 1"
    and e2: "earlier_label_check m d (underlined lw None ops) 2"
    using k1 k2 by (simp_all only: un)
  have din': "str_int d \<in> set (underlined lw None ops)"
    using din by (simp only: un)
  show ?thesis
    using dm dt din'
      earlier_day_on_canvas [OF e1 range(2), of codes2 env2 th2 x2 y2 w2 h2 fs0 lw2]
      earlier_day_on_canvas [OF e2 range(2), of codes2 env2 th2 x2 y2 w2 h2 fs0 lw2]
    by simp
qed

lemma labels_november:
  "map str_int [1, 6, 7, 8, 19, 20, 21, 27, 28, 29] =
     [''1'', ''6'', ''7'', ''8'', ''19'', ''20'', ''21'', ''27'', ''28'', ''29'']"
  "str_int 1 = ''1''" "str_int 31 = ''31''"
  by code_simp+

theorem race_weekend_underlines_witness:
  "((11, 1), ''MEXICO'') \<in> set race_sundays \<and>
   date_sub_days (2026, 11, 1) 1 = Inr (2026, 10, 31) \<and>
   (\<exists>ops fs'.
      draw_month race_sundays COUNTRY_FLAG_CODES env_offline theme_2026 0 0 400 400 11
        (start_state Map.empty) = Inr (ops, fs') \<and>
      underlined 1 None ops =
        [''1'', ''6'', ''7'', ''8'', ''19'', ''20'', ''21'', ''27'', ''28'', ''29''] \<and>
      ''1'' \<in> set (underlined 1 None ops) \<and>
      ''31'' \<notin> set (underlined 1 None ops) \<and>
      (\<exists>prior fs2.
         draw_month race_sundays COUNTRY_FLAG_CODES env_offline theme_2026 0 0 400 400 10
           (start_state Map.empty) = Inr (prior, fs2) \<and>
         ''31'' \<notin> set (underlined 1 None prior)))"
proof -
  have e: "((11, 1), ''MEXICO'') \<in> set race_sundays" by (simp add: race_sundays_def)
  from race_weekend_underlines [OF e, of COUNTRY_FLAG_CODES env_offline theme_2026 0 0 400 400
      "start_state Map.empty" 1 COUNTRY_FLAG_CODES env_offline theme_2026 0 0 400 400
      "start_state Map.empty" 1]
  obtain ops fs' where
      dm: "draw_month race_sundays COUNTRY_FLAG_CODES env_offline theme_2026 0 0 400 400 11
        (start_state Map.empty) = Inr (ops, fs')"
      and din: "str_int 1 \<in> set (underlined 1 None ops)"
      and all: "\<forall>k \<in> {1, 2}. \<exists>pm pd.
               date_sub_days (2026, 11, 1) k = Inr (2026, pm, pd) \<and>
               ((str_int (1 - k) \<in> set (underlined 1 None ops)) = (pm = 11)) \<and>
               (pm = 11 \<longrightarrow> pd = 1 - k) \<and>
               (pm \<noteq> 11 \<longrightarrow> pm = 11 - 1 \<and> str_int pd \<notin> set (underlined 1 None ops) \<and>
                  (\<exists>prior fs2.
                      draw_month race_sundays COUNTRY_FLAG_CODES env_offline theme_2026
                        0 0 400 400 pm (start_state Map.empty) = Inr (prior, fs2) \<and>
                      str_int pd \<notin> set (underlined 1 None prior)))"
    by blast
  from all have "\<exists>pm pd.
               date_sub_days (2026, 11, 1) 1 = Inr (2026, pm, pd) \<and>
               ((str_int (1 - 1) \<in> set (underlined 1 None ops)) = (pm = 11)) \<and>
               (pm = 11 \<longrightarrow> pd = 1 - 1) \<and>
               (pm \<noteq> 11 \<longrightarrow> pm = 11 - 1 \<and> str_int pd \<notin> set (underlined 1 None ops) \<and>
                  (\<exists>prior fs2.
                      draw_month race_sundays COUNTRY_FLAG_CODES env_offline theme_2026
                        0 0 400 400 pm (start_state Map.empty) = Inr (prior, fs2) \<and>
                      str_int pd \<notin> set (underlined 1 None prior)))"
    by (rule bspec) simp
  then have out: "str_int 31 \<notin> set (underlined 1 None ops)"
    and prior: "\<exists>prior fs2.
         draw_month race_sundays COUNTRY_FLAG_CODES env_offline theme_2026 0 0 400 400 10
           (start_state Map.empty) = Inr (prior, fs2) \<and>
         str_int 31 \<notin> set (underlined 1 None prior)"
    by (auto simp: before_november)
  from month_2026_underlined [of 11 COUNTRY_FLAG_CODES env_offline theme_2026 0 0 400 400
      "start_state Map.empty" 1] dm
  have labels: "underlined 1 None ops = map str_int [1, 6, 7, 8, 19, 20, 21, 27, 28, 29]"
    by (auto simp: underlined_november)
  have labels': "underlined 1 None ops =
      [''1'', ''6'', ''7'', ''8'', ''19'', ''20'', ''21'', ''27'', ''28'', ''29'']"
    using labels unfolding labels_november .
  have din': "''1'' \<in> set (underlined 1 None ops)"
    using din unfolding labels_november .
  have out': "''31'' \<notin> set (underlined 1 None ops)"
    using out unfolding labels_november .
  have prior': "\<exists>prior fs2.
         draw_month race_sundays COUNTRY_FLAG_CODES env_offline theme_2026 0 0 400 400 10
           (start_state Map.empty) = Inr (prior, fs2) \<and>
         ''31'' \<notin> set (underlined 1 None prior)"
    using prior unfolding labels_november .
  show ?thesis
    using e before_november(1) dm labels' din' out' prior' by blast
qed

subsection \<open>The page\<close>

lemma month_block_2026:
  assumes "1 \<le> month" and "month \<le> 12"
  shows "\<exists>ops fs'. month_block race_sundays codes env th r c month fs = Inr (ops, fs') \<and>
     drawn_strings ops =
       (block_x c + pad, block_y r - pad - 10, upper (month_name ! nat month)) #
       race_line_strings race_sundays month (block_x c) (block_y r) cell_h \<and>
     filter frame_op ops = [RoundRect (block_x c) (block_y r - cell_h) cell_w cell_h 10]"
proof -
  from assms have cases: "month \<in> {1, 2, 3, 4, 5, 6, 7, 8, 9, 10, 11, 12}"
    by (rule month_cases)
  obtain weeks where w: "padded_weeks month = Inr weeks" "6 \<le> length weeks"
      "\<And>r. r < 6 \<Longrightarrow> 7 \<le> length (weeks ! r)"
    using padded_weeks_shape [OF assms] by blast
  obtain ul where u: "underline_days race_sundays month = Inr ul"
    using cases underline_days_2026 by (auto split: sum.splits)
  obtain races where rs: "month_races race_sundays month = Inr races"
    using cases month_races_2026 by auto
  obtain grid_ops where g:
      "draw_month_grid race_sundays env th (block_x c) (block_y r) cell_w cell_h month = Inr grid_ops"
      "drawn_strings grid_ops =
         [(block_x c + pad, block_y r - pad - 10, upper (month_name ! nat month))]"
      "filter frame_op grid_ops = []"
    using draw_month_grid_Inr [OF getitem_month_name [OF assms] w u] by blast
  show ?thesis
    by (simp add: month_block_def draw_month_Inr [OF g(1) rs] drawn_strings_append g(2,3)
        race_lines_strings race_lines_frame race_line_strings_def rs text_indent_def)
qed

lemma draw_blocks_2026:
  assumes "list_all (\<lambda>(r, c, month). 1 \<le> month \<and> month \<le> 12) blocks"
  shows "\<exists>ops fs'. draw_blocks race_sundays codes env th blocks fs = Inr (ops, fs') \<and>
     drawn_strings ops =
       concat (map (\<lambda>(r, c, month).
         (block_x c + pad, block_y r - pad - 10, upper (month_name ! nat month)) #
         race_line_strings race_sundays month (block_x c) (block_y r) cell_h) blocks) \<and>
     filter frame_op ops =
       map (\<lambda>(r, c, month). RoundRect (block_x c) (block_y r - cell_h) cell_w cell_h 10) blocks"
  using assms
proof (induction blocks arbitrary: fs)
  case Nil
  then show ?case by simp
next
  case (Cons b blocks)
  obtain r c month where b: "b = (r, c, month)" by (cases b)
  have m: "1 \<le> month" "month \<le> 12" using Cons.prems b by simp_all
  have p: "list_all (\<lambda>(r, c, month). 1 \<le> month \<and> month \<le> 12) blocks"
    using Cons.prems by simp
  obtain ops fs1 where 1: "month_block race_sundays codes env th r c month fs = Inr (ops, fs1)"
      "drawn_strings ops =
         (block_x c + pad, block_y r - pad - 10, upper (month_name ! nat month)) #
         race_line_strings race_sundays month (block_x c) (block_y r) cell_h"
      "filter frame_op ops = [RoundRect (block_x c) (block_y r - cell_h) cell_w cell_h 10]"
    using month_block_2026 [OF m] by blast
  obtain rest fs2 where 2: "draw_blocks race_sundays codes env th blocks fs1 = Inr (rest, fs2)"
      "drawn_strings rest =
         concat (map (\<lambda>(r, c, month).
           (block_x c + pad, block_y r - pad - 10, upper (month_name ! nat month)) #
           race_line_strings race_sundays month (block_x c) (block_y r) cell_h) blocks)"
      "filter frame_op rest =
         map (\<lambda>(r, c, month). RoundRect (block_x c) (block_y r - cell_h) cell_w cell_h 10) blocks"
    using Cons.IH [OF p, of fs1] by blast
  show ?case
    by (simp add: b 1 2 drawn_strings_append)
qed

lemma month_block_2026_body:
  assumes "1 \<le> month" and "month \<le> 12"
  shows "\<exists>body fs'.
     draw_month race_sundays codes env th (block_x c) (block_y r) cell_w cell_h month fs
       = Inr (body, fs') \<and>
     month_block race_sundays codes env th r c month fs =
       Inr ([SetStrokeColor (grid th), SetLineWidth 0.6,
             RoundRect (block_x c) (block_y r - cell_h) cell_w cell_h 10] @ body, fs') \<and>
     drawn_strings body =
       (block_x c + pad, block_y r - pad - 10, upper (month_name ! nat month)) #
       race_line_strings race_sundays month (block_x c) (block_y r) cell_h"
proof -
  from assms have cases: "month \<in> {1, 2, 3, 4, 5, 6, 7, 8, 9, 10, 11, 12}"
    by (rule month_cases)
  obtain weeks where w: "padded_weeks month = Inr weeks" "6 \<le> length weeks"
      "\<And>r. r < 6 \<Longrightarrow> 7 \<le> length (weeks ! r)"
    using padded_weeks_shape [OF assms] by blast
  obtain ul where u: "underline_days race_sundays month = Inr ul"
    using cases underline_days_2026 by (auto split: sum.splits)
  obtain races where rs: "month_races race_sundays month = Inr races"
    using cases month_races_2026 by auto
  obtain grid_ops where g:
      "draw_month_grid race_sundays env th (block_x c) (block_y r) cell_w cell_h month = Inr grid_ops"
      "drawn_strings grid_ops =
         [(block_x c + pad, block_y r - pad - 10, upper (month_name ! nat month))]"
    using draw_month_grid_Inr [OF getitem_month_name [OF assms] w u] by blast
  show ?thesis
    by (simp add: month_block_def draw_month_Inr [OF g(1) rs] drawn_strings_append g(2)
        race_lines_strings race_line_strings_def rs text_indent_def)
qed

lemma draw_blocks_2026_each:
  assumes "list_all (\<lambda>(r, c, month). 1 \<le> month \<and> month \<le> 12) cells"
  shows "\<exists>blocks fs'.
     draw_blocks race_sundays codes env th cells fs = Inr (concat blocks, fs') \<and>
     list_all2
       (\<lambda>(r, c, month) block. \<exists>fs_in body fs_out.
          draw_month race_sundays codes env th (block_x c) (block_y r) cell_w cell_h month fs_in
            = Inr (body, fs_out) \<and>
          block = [SetStrokeColor (grid th), SetLineWidth 0.6,
                   RoundRect (block_x c) (block_y r - cell_h) cell_w cell_h 10] @ body \<and>
          drawn_strings body =
            (block_x c + pad, block_y r - pad - 10, upper (month_name ! nat month)) #
            race_line_strings race_sundays month (block_x c) (block_y r) cell_h)
       cells blocks"
  using assms
proof (induction cells arbitrary: fs)
  case Nil
  then show ?case by simp
next
  case (Cons b cells)
  obtain r c month where b: "b = (r, c, month)" by (cases b)
  have m: "1 \<le> month" "month \<le> 12" using Cons.prems b by simp_all
  have p: "list_all (\<lambda>(r, c, month). 1 \<le> month \<and> month \<le> 12) cells"
    using Cons.prems by simp
  obtain body fs1 where 1:
      "draw_month race_sundays codes env th (block_x c) (block_y r) cell_w cell_h month fs
         = Inr (body, fs1)"
      "month_block race_sundays codes env th r c month fs =
         Inr ([SetStrokeColor (grid th), SetLineWidth 0.6,
               RoundRect (block_x c) (block_y r - cell_h) cell_w cell_h 10] @ body, fs1)"
      "drawn_strings body =
         (block_x c + pad, block_y r - pad - 10, upper (month_name ! nat month)) #
         race_line_strings race_sundays month (block_x c) (block_y r) cell_h"
    using month_block_2026_body [OF m] by blast
  obtain blocks fs2 where 2:
      "draw_blocks race_sundays codes env th cells fs1 = Inr (concat blocks, fs2)"
      "list_all2
         (\<lambda>(r, c, month) block. \<exists>fs_in body fs_out.
            draw_month race_sundays codes env th (block_x c) (block_y r) cell_w cell_h month fs_in
              = Inr (body, fs_out) \<and>
            block = [SetStrokeColor (grid th), SetLineWidth 0.6,
                     RoundRect (block_x c) (block_y r - cell_h) cell_w cell_h 10] @ body \<and>
            drawn_strings body =
              (block_x c + pad, block_y r - pad - 10, upper (month_name ! nat month)) #
              race_line_strings race_sundays month (block_x c) (block_y r) cell_h)
         cells blocks"
    using Cons.IH [OF p, of fs1] by blast
  let ?block = "[SetStrokeColor (grid th), SetLineWidth 0.6,
                 RoundRect (block_x c) (block_y r - cell_h) cell_w cell_h 10] @ body"
  have run: "draw_blocks race_sundays codes env th (b # cells) fs = Inr (concat (?block # blocks), fs2)"
    by (simp add: b 1(2) 2(1))
  have rel: "list_all2
         (\<lambda>(r, c, month) block. \<exists>fs_in body fs_out.
            draw_month race_sundays codes env th (block_x c) (block_y r) cell_w cell_h month fs_in
              = Inr (body, fs_out) \<and>
            block = [SetStrokeColor (grid th), SetLineWidth 0.6,
                     RoundRect (block_x c) (block_y r - cell_h) cell_w cell_h 10] @ body \<and>
            drawn_strings body =
              (block_x c + pad, block_y r - pad - 10, upper (month_name ! nat month)) #
              race_line_strings race_sundays month (block_x c) (block_y r) cell_h)
         (b # cells) (?block # blocks)"
    using 1(1,3) 2(2) by (auto simp: b)
  from run rel show ?case by blast
qed

lemma for_state_append:
  "for_state body (as @ bs) s =
     (case for_state body as s of Inl e \<Rightarrow> Inl e | Inr s' \<Rightarrow> for_state body bs s')"
  by (induction as arbitrary: s) (simp_all split: sum.splits)

lemma for_state_nested:
  "for_state (\<lambda>r. for_state (body r) cs) rs s =
     for_state (\<lambda>(r, c). body r c) (List.product rs cs) s"
proof (induction rs arbitrary: s)
  case Nil
  then show ?case by simp
next
  case (Cons r rs)
  have inner: "for_state (\<lambda>(r, c). body r c) (map (Pair r) cs) s' = for_state (body r) cs s'" for s'
    by (induction cs arbitrary: s') (simp_all split: sum.splits)
  show ?case
    by (simp add: for_state_append inner Cons.IH split: sum.splits)
qed

lemma poster_body_step:
  "poster_body tbl codes env th r c (month, canvas, fs) =
     (case month_block tbl codes env th r c month fs of
        Inl e \<Rightarrow> Inl e
      | Inr (ops, fs') \<Rightarrow> Inr (month + 1, canvas @ ops, fs'))"
  by (simp add: poster_body_def)

lemma poster_loop_blocks:
  "for_state (\<lambda>(r, c). poster_body tbl codes env th r c) cells (month, canvas, fs) =
     (case draw_blocks tbl codes env th
             (map (\<lambda>(i, r, c). (r, c, month + int i)) (enumerate 0 cells)) fs of
        Inl e \<Rightarrow> Inl e
      | Inr (ops, fs') \<Rightarrow> Inr (month + int (length cells), canvas @ ops, fs'))"
proof (induction cells arbitrary: month canvas fs)
  case Nil
  then show ?case by simp
next
  case (Cons cell cells)
  obtain r c where cell: "cell = (r, c)" by (cases cell)
  have shift: "map (\<lambda>(i, r, c). (r, c, month + int i)) (enumerate (Suc 0) cells)
      = map (\<lambda>(i, r, c). (r, c, month + 1 + int i)) (enumerate 0 cells)"
    by (simp add: enumerate_Suc_eq case_prod_unfold algebra_simps)
  show ?case
    by (simp add: cell poster_body_step shift Cons.IH split: sum.splits prod.splits)
qed

lemma row_major_list:
  "row_major = [(0, 0, 1), (0, 1, 2), (0, 2, 3), (1, 0, 4), (1, 1, 5), (1, 2, 6),
                (2, 0, 7), (2, 1, 8), (2, 2, 9), (3, 0, 10), (3, 1, 11), (3, 2, 12)]"
  by (simp add: row_major_def upt_rec)

lemma row_major_months: "list_all (\<lambda>(r, c, month). 1 \<le> month \<and> month \<le> 12) row_major"
  by (simp add: row_major_list)

lemma make_poster_blocks:
  "make_poster tbl codes env th fs =
     (case draw_blocks tbl codes env th row_major fs of
        Inl e \<Rightarrow> Inl e
      | Inr (ops, fs') \<Rightarrow> Inr (poster_head th @ ops @ [ShowPage, Save], fs'))"
proof -
  have cells: "map (\<lambda>(i, r, c). (r, c, 1 + int i)) (enumerate 0 (List.product [0 ..< rows] [0 ..< cols]))
      = row_major"
    by (simp add: row_major_list rows_def cols_def upt_rec enumerate_eq_zip)
  show ?thesis
    by (simp add: make_poster_def for_state_nested poster_loop_blocks cells
        split: sum.splits prod.splits)
qed

lemma race_line_strings_texts:
  "map (\<lambda>(x, y, s). s) (race_line_strings tbl month x y h) =
     (case month_races tbl month of Inl e \<Rightarrow> [] | Inr races \<Rightarrow> map (\<lambda>(d, name). race_text d name) races)"
proof (cases "month_races tbl month")
  case (Inl e)
  then show ?thesis by (simp add: race_line_strings_def)
next
  case (Inr races)
  have "map (\<lambda>(x, y, s). s) (map (\<lambda>(i, d, name). (a, f i, race_text d name)) (enumerate n races))
      = map (\<lambda>(d, name). race_text d name) races" for a :: real and f :: "nat \<Rightarrow> real" and n
    by (induction races arbitrary: n) (simp_all add: case_prod_unfold)
  then show ?thesis by (simp add: race_line_strings_def Inr)
qed

lemma drawn_texts_blocks:
  "map (\<lambda>(x, y, s). s)
     (concat (map (\<lambda>(r, c, month).
         (block_x c + pad, block_y r - pad - 10, upper (month_name ! nat month)) #
         race_line_strings tbl month (block_x c) (block_y r) cell_h) blocks))
   = concat (map (\<lambda>(r, c, month). block_texts tbl month) blocks)"
  by (induction blocks) (auto simp: block_texts_def race_line_strings_texts)

lemma poster_texts_2026:
  "filter (\<lambda>s. s \<in> set (race_texts race_sundays))
     (''2026 FORMULA 1 SEASON'' #
      concat (map (\<lambda>(r, c, month). block_texts race_sundays month) row_major))
   = race_texts race_sundays"
  by code_simp

lemma cell_sizes: "cell_w = 379.2" "cell_h = 363.4"
  by (simp_all add: cell_w_def cell_h_def WIDTH_def HEIGHT_def margin_def inch_def cols_def rows_def
      gap_x_def gap_y_def page_grid_h_def page_grid_top_def page_grid_bottom_def header_y_def)

text \<open>
  C8. The canvas of \<^verbatim>\<open>make_poster\<close> for the script's table is the page head, twelve
  blocks and the page end, and the blocks follow \<open>row_major\<close>: the block for row \<open>r\<close>
  and column \<open>c\<close> is the outline at \<open>(block_x c, block_y r - cell_h)\<close> followed by
  what \<^verbatim>\<open>draw_month\<close> draws for month \<open>3 r + c + 1\<close> in the rectangle with top-left
  corner \<open>(block_x c, block_y r)\<close>; the texts it writes are that month's name at the
  block's corner and that month's race lines. The months are 1 to 12. Columns go from
  left to right and rows from top to bottom. For any table, the two loops with their
  counter equal drawing the blocks of \<open>row_major\<close> in order.
\<close>

theorem months_row_major:
  "\<exists>blocks fs'.
     make_poster race_sundays codes env th fs =
       Inr (poster_head th @ concat blocks @ [ShowPage, Save], fs') \<and>
     list_all2
       (\<lambda>(r, c, month) block. \<exists>fs_in body fs_out.
          draw_month race_sundays codes env th (block_x c) (block_y r) cell_w cell_h month fs_in
            = Inr (body, fs_out) \<and>
          block = [SetStrokeColor (grid th), SetLineWidth 0.6,
                   RoundRect (block_x c) (block_y r - cell_h) cell_w cell_h 10] @ body \<and>
          drawn_strings body =
            (block_x c + pad, block_y r - pad - 10, upper (month_name ! nat month)) #
            race_line_strings race_sundays month (block_x c) (block_y r) cell_h)
       row_major blocks \<and>
     length blocks = 12 \<and>
     row_major = concat (map (\<lambda>r. map (\<lambda>c. (r, c, 3 * int r + int c + 1)) [0 ..< 3]) [0 ..< 4]) \<and>
     row_major = [(0, 0, 1), (0, 1, 2), (0, 2, 3), (1, 0, 4), (1, 1, 5), (1, 2, 6),
                  (2, 0, 7), (2, 1, 8), (2, 2, 9), (3, 0, 10), (3, 1, 11), (3, 2, 12)] \<and>
     map (\<lambda>(r, c, month). month) row_major = [1 .. 12] \<and>
     block_x col < block_x (Suc col) \<and> block_y (Suc row) < block_y row \<and>
     make_poster tbl codes env th fs =
       (case draw_blocks tbl codes env th row_major fs of
          Inl e \<Rightarrow> Inl e
        | Inr (ops, fs') \<Rightarrow> Inr (poster_head th @ ops @ [ShowPage, Save], fs'))"
proof -
  obtain blocks fs' where b:
      "draw_blocks race_sundays codes env th row_major fs = Inr (concat blocks, fs')"
    and rel: "list_all2
       (\<lambda>(r, c, month) block. \<exists>fs_in body fs_out.
          draw_month race_sundays codes env th (block_x c) (block_y r) cell_w cell_h month fs_in
            = Inr (body, fs_out) \<and>
          block = [SetStrokeColor (grid th), SetLineWidth 0.6,
                   RoundRect (block_x c) (block_y r - cell_h) cell_w cell_h 10] @ body \<and>
          drawn_strings body =
            (block_x c + pad, block_y r - pad - 10, upper (month_name ! nat month)) #
            race_line_strings race_sundays month (block_x c) (block_y r) cell_h)
       row_major blocks"
    using draw_blocks_2026_each [OF row_major_months] by blast
  have m: "make_poster race_sundays codes env th fs =
       Inr (poster_head th @ concat blocks @ [ShowPage, Save], fs')"
    by (simp add: make_poster_blocks b)
  have n: "length row_major = 12" by (simp add: row_major_list)
  have len: "length blocks = 12"
    using list_all2_lengthD [OF rel] n by simp
  have x: "block_x col < block_x (Suc col)"
    by (simp add: block_x_def cell_sizes gap_x_def inch_def algebra_simps)
  have y: "block_y (Suc row) < block_y row"
    by (simp add: block_y_def cell_sizes gap_y_def inch_def algebra_simps)
  have months: "map (\<lambda>(r, c, month). month) row_major = [1 .. 12]"
    by (simp add: row_major_list upto.simps)
  note row_major_def row_major_list make_poster_blocks [of tbl codes env th fs]
  with m rel len x y months show ?thesis by blast
qed

text \<open>
  C7. Rendering the script's table succeeds in every world. The canvas holds the outlines
  of twelve month blocks, then one \<^verbatim>\<open>showPage\<close> and one \<^verbatim>\<open>save\<close>; the race lines
  drawn on it are the lines of the table's entries, each once and in the table's order, so
  they are as many as the table has entries: 24.
\<close>

theorem poster_twelve_blocks_all_races:
  "\<exists>ops fs'. make_poster race_sundays COUNTRY_FLAG_CODES env th fs = Inr (ops, fs') \<and>
     filter frame_op ops =
       map (\<lambda>(r, c, month). RoundRect (block_x c) (block_y r - cell_h) cell_w cell_h 10) row_major @
       [ShowPage, Save] \<and>
     length row_major = 12 \<and>
     race_lines_drawn race_sundays ops = race_texts race_sundays \<and>
     length (race_lines_drawn race_sundays ops) = length race_sundays \<and>
     length race_sundays = 24"
proof -
  obtain ops fs' where b: "draw_blocks race_sundays COUNTRY_FLAG_CODES env th row_major fs = Inr (ops, fs')"
    and s: "drawn_strings ops =
       concat (map (\<lambda>(r, c, month).
         (block_x c + pad, block_y r - pad - 10, upper (month_name ! nat month)) #
         race_line_strings race_sundays month (block_x c) (block_y r) cell_h) row_major)"
    and f: "filter frame_op ops =
       map (\<lambda>(r, c, month). RoundRect (block_x c) (block_y r - cell_h) cell_w cell_h 10) row_major"
    using draw_blocks_2026 [OF row_major_months] by blast
  let ?ops = "poster_head th @ ops @ [ShowPage, Save]"
  have m: "make_poster race_sundays COUNTRY_FLAG_CODES env th fs = Inr (?ops, fs')"
    by (simp add: make_poster_blocks b)
  have t: "drawn_texts ?ops =
      ''2026 FORMULA 1 SEASON'' # concat (map (\<lambda>(r, c, month). block_texts race_sundays month) row_major)"
    by (simp add: drawn_texts_def drawn_strings_append poster_head_def s drawn_texts_blocks)
  have l: "race_lines_drawn race_sundays ?ops = race_texts race_sundays"
    unfolding race_lines_drawn_def t by (rule poster_texts_2026)
  have fr: "filter frame_op ?ops =
       map (\<lambda>(r, c, month). RoundRect (block_x c) (block_y r - cell_h) cell_w cell_h 10) row_major @
       [ShowPage, Save]"
    by (simp add: poster_head_def f)
  have n: "length race_sundays = 24" by (simp add: race_sundays_def)
  have k: "length row_major = 12" by (simp add: row_major_list)
  show ?thesis using m l fr n k by (simp add: race_texts_def)
qed

end
